theory Spec2Isabelle
  imports Main
begin

section \<open>JavaScript values handled by the two route handlers\<close>

text \<open>
  The handlers of \<^verbatim>\<open>src/lib/varaVerify.ts\<close> (the verify route, lines 1-233, and the settle
  route, lines 234-487) work on values produced by \<^verbatim>\<open>request.json()\<close> and
  \<^verbatim>\<open>JSON.parse\<close>. Such a value is \<^verbatim>\<open>null\<close>, a boolean, a number, a string, an array or
  an object whose own properties are again such values; reading a property that is not
  there gives \<^verbatim>\<open>undefined\<close>.

  The type parameter \<open>'n\<close> stands for the numbers (doubles, the two zeros identified,
  no NaN since JSON has none). What the engine does with a number (rendering it, testing
  it for zero, converting it to a BigInt) is taken from the runtime record below, so
  nothing here depends on floating point arithmetic. Strings are lists of 8-bit
  characters, which covers every text the handlers compare or build themselves.
\<close>

datatype 'n jsval =
    JUndefined
  | JNull
  | JBool bool
  | JNum 'n
  | JStr string
  | JArr "'n jsval list"
  | JObj "(string \<times> 'n jsval) list"

text \<open>An \<^verbatim>\<open>Error\<close> object: its \<^verbatim>\<open>name\<close> and its \<^verbatim>\<open>message\<close>.\<close>

datatype jserror = JsError (err_name: string) (err_message: string)

text \<open>
  The places where the engine itself throws. The text of the message belongs to the
  engine (V8 and JavaScriptCore word them differently), so it is a field of the runtime.
\<close>

datatype engine_fault =
    DestructureNullish
  | ReadOfNullish string
  | NotAFunction string
  | NotPrimitive
  | BigIntOfNullish
  | BigIntOfFraction
  | BigIntSyntax string

fun fault_name :: "engine_fault \<Rightarrow> string" where
  "fault_name BigIntOfFraction = ''RangeError''"
| "fault_name (BigIntSyntax s) = ''SyntaxError''"
| "fault_name f = ''TypeError''"

text \<open>The results of the two delegated calls, as the handlers read them.\<close>

record VerifyResponse =
  isValid :: bool
  invalidReason :: "string option"

record SettleResult =
  r_success :: bool
  r_txHash :: "string option"
  r_message :: "string option"

text \<open>
  Everything the handlers import or call and that is not defined in this repository:
  the constants of \<^verbatim>\<open>x402-vara/lib\<close>, the number operations and message texts of the
  engine, \<^verbatim>\<open>Buffer.from(_, 'base64').toString('utf-8')\<close>, \<^verbatim>\<open>JSON.parse\<close>, and the four
  collaborators \<^verbatim>\<open>useApi\<close>, \<^verbatim>\<open>balanceOf\<close>, \<^verbatim>\<open>verifyWithApi\<close>, \<^verbatim>\<open>settleWithApi\<close>.
  A call that throws (or whose promise rejects) returns \<open>Inl\<close> of the error.
  \<open>'h\<close> is the type of chain-API handles.
\<close>

record ('n, 'h) runtime =
  X402_VERSION :: 'n
  X402_SCHEME :: string
  validVaraNetworks :: "string list"
  numToString :: "'n \<Rightarrow> string"
  numIsZero :: "'n \<Rightarrow> bool"
  numToBigInt :: "'n \<Rightarrow> int option"
  faultText :: "engine_fault \<Rightarrow> string"
  base64Decode :: "string \<Rightarrow> jserror + string"
  jsonParse :: "string \<Rightarrow> jserror + 'n jsval"
  useApi :: "'n jsval \<Rightarrow> jserror + 'h"
  balanceOf :: "'h \<Rightarrow> 'n jsval \<Rightarrow> 'n jsval \<Rightarrow> jserror + int"
  verifyWithApi :: "'h \<Rightarrow> 'n jsval \<Rightarrow> jserror + VerifyResponse"
  settleWithApi :: "'h \<Rightarrow> 'n jsval \<Rightarrow> bool \<Rightarrow> jserror + SettleResult"

definition thrown :: "('n, 'h) runtime \<Rightarrow> engine_fault \<Rightarrow> jserror" where
  "thrown w f = JsError (fault_name f) (faultText w f)"

subsection \<open>Property reads, truthiness, strict equality\<close>

fun nullish :: "'n jsval \<Rightarrow> bool" where
  "nullish JUndefined = True"
| "nullish JNull = True"
| "nullish v = False"

text \<open>
  \<open>field v k\<close> is \<^verbatim>\<open>v.k\<close> for a value \<open>v\<close> that is not nullish (on a nullish value the
  read throws, which the handlers below check first). The names read this way
  (\<^verbatim>\<open>scheme\<close>, \<^verbatim>\<open>network\<close>, \<^verbatim>\<open>asset\<close>, \<^verbatim>\<open>payload\<close>, ...) are on no prototype, so a primitive
  or an array gives \<^verbatim>\<open>undefined\<close>.
\<close>

fun field :: "'n jsval \<Rightarrow> string \<Rightarrow> 'n jsval" where
  "field (JObj kvs) k = (case map_of kvs k of None \<Rightarrow> JUndefined | Some v \<Rightarrow> v)"
| "field v k = JUndefined"

fun truthy :: "('n, 'h) runtime \<Rightarrow> 'n jsval \<Rightarrow> bool" where
  "truthy w JUndefined = False"
| "truthy w JNull = False"
| "truthy w (JBool b) = b"
| "truthy w (JNum n) = (\<not> numIsZero w n)"
| "truthy w (JStr s) = (s \<noteq> [])"
| "truthy w (JArr xs) = True"
| "truthy w (JObj kvs) = True"

text \<open>
  \<^verbatim>\<open>a === b\<close> for two values that come from different sources (two parses, or a parse
  and a library constant): primitives are compared by value, two arrays or objects are
  never the same reference.
\<close>

fun strict_eq :: "'n jsval \<Rightarrow> 'n jsval \<Rightarrow> bool" where
  "strict_eq JUndefined JUndefined = True"
| "strict_eq JNull JNull = True"
| "strict_eq (JBool a) (JBool b) = (a = b)"
| "strict_eq (JNum a) (JNum b) = (a = b)"
| "strict_eq (JStr a) (JStr b) = (a = b)"
| "strict_eq a b = False"

text \<open>
  \<^verbatim>\<open>a || b\<close> on two conditions: \<open>b\<close> is looked at only when \<open>a\<close> is false.
\<close>

definition js_or :: "bool \<Rightarrow> bool \<Rightarrow> bool" where
  "js_or a b = (if a then True else b)"

text \<open>\<^verbatim>\<open>validVaraNetworks.includes(network)\<close> on an array of strings.\<close>

fun includes_network :: "string list \<Rightarrow> 'n jsval \<Rightarrow> bool" where
  "includes_network nets (JStr s) = (s \<in> set nets)"
| "includes_network nets v = False"

text \<open>\<^verbatim>\<open>String.prototype.includes\<close>: does \<open>sub\<close> occur in \<open>s\<close>?\<close>

fun starts_with :: "string \<Rightarrow> string \<Rightarrow> bool" where
  "starts_with s [] = True"
| "starts_with [] (c # cs) = False"
| "starts_with (d # ds) (c # cs) = (d = c \<and> starts_with ds cs)"

fun str_includes :: "string \<Rightarrow> string \<Rightarrow> bool" where
  "str_includes [] sub = (sub = [])"
| "str_includes (c # cs) sub = (starts_with (c # cs) sub \<or> str_includes cs sub)"

subsection \<open>Conversion to string (template literals)\<close>

fun join :: "string \<Rightarrow> string list \<Rightarrow> string" where
  "join sep [] = []"
| "join sep [x] = x"
| "join sep (x # y # ys) = x @ sep @ join sep (y # ys)"

text \<open>
  A parsed object has no callable \<^verbatim>\<open>toString\<close> of its own: if it has an own property of
  that name, conversion to a primitive throws a TypeError; otherwise
  \<^verbatim>\<open>Object.prototype.toString\<close> answers. An array joins its elements with a comma,
  \<^verbatim>\<open>null\<close> and \<^verbatim>\<open>undefined\<close> elements as the empty string.
\<close>

fun printable :: "'n jsval \<Rightarrow> bool" where
  "printable (JArr xs) = list_all printable xs"
| "printable (JObj kvs) = (map_of kvs ''toString'' = None)"
| "printable v = True"

fun render :: "('n \<Rightarrow> string) \<Rightarrow> 'n jsval \<Rightarrow> string" where
  "render sh JUndefined = ''undefined''"
| "render sh JNull = ''null''"
| "render sh (JBool b) = (if b then ''true'' else ''false'')"
| "render sh (JNum n) = sh n"
| "render sh (JStr s) = s"
| "render sh (JArr xs) = join '','' (map (\<lambda>x. if nullish x then [] else render sh x) xs)"
| "render sh (JObj kvs) = ''[object Object]''"

definition to_string :: "('n, 'h) runtime \<Rightarrow> 'n jsval \<Rightarrow> jserror + string" where
  "to_string w v =
     (if printable v then Inr (render (numToString w) v) else Inl (thrown w NotPrimitive))"

text \<open>
  A template literal: its pieces are evaluated from left to right, and the first
  substitution that cannot be converted throws.
\<close>

datatype 'n piece = Lit string | Sub "'n jsval"

fun template :: "('n, 'h) runtime \<Rightarrow> 'n piece list \<Rightarrow> jserror + string" where
  "template w [] = Inr []"
| "template w (Lit s # ps) =
     (case template w ps of Inl e \<Rightarrow> Inl e | Inr r \<Rightarrow> Inr (s @ r))"
| "template w (Sub v # ps) =
     (case to_string w v of
        Inl e \<Rightarrow> Inl e
      | Inr s \<Rightarrow> (case template w ps of Inl e \<Rightarrow> Inl e | Inr r \<Rightarrow> Inr (s @ r)))"

subsection \<open>BigInt: rendering and conversion\<close>

definition digit_char :: "nat \<Rightarrow> char" where
  "digit_char d = ''0123456789'' ! d"

function showNat :: "nat \<Rightarrow> string" where
  "showNat n = (if n < 10 then [digit_char n] else showNat (n div 10) @ [digit_char (n mod 10)])"
  by pat_completeness auto
termination
  by (relation "measure id") auto

declare showNat.simps [simp del]

text \<open>
  The decimal digits of an integer, a minus sign when negative: what
  \<^verbatim>\<open>BigInt.prototype.toString()\<close> gives, and \<^verbatim>\<open>Number.prototype.toString()\<close> on a
  difference of two \<^verbatim>\<open>Date.now()\<close> readings.
\<close>

definition show_int :: "int \<Rightarrow> string" where
  "show_int i = (if i < 0 then CHR ''-'' # showNat (nat (- i)) else showNat (nat i))"

definition is_ws :: "char \<Rightarrow> bool" where
  "is_ws c = (of_char c \<in> {9, 10, 11, 12, 13, 32, 160 :: nat})"

definition trim :: "string \<Rightarrow> string" where
  "trim s = rev (dropWhile is_ws (rev (dropWhile is_ws s)))"

definition digit_val :: "nat \<Rightarrow> char \<Rightarrow> nat option" where
  "digit_val base c =
     (let n = (of_char c :: nat);
          v = (if 48 \<le> n \<and> n \<le> 57 then Some (n - 48)
               else if 97 \<le> n \<and> n \<le> 102 then Some (n - 87)
               else if 65 \<le> n \<and> n \<le> 70 then Some (n - 55)
               else None)
      in case v of None \<Rightarrow> None | Some d \<Rightarrow> if d < base then Some d else None)"

fun digits_acc :: "nat \<Rightarrow> nat \<Rightarrow> string \<Rightarrow> nat option" where
  "digits_acc base acc [] = Some acc"
| "digits_acc base acc (c # cs) =
     (case digit_val base c of
        None \<Rightarrow> None
      | Some d \<Rightarrow> digits_acc base (acc * base + d) cs)"

definition digits :: "nat \<Rightarrow> string \<Rightarrow> nat option" where
  "digits base cs = (if cs = [] then None else digits_acc base 0 cs)"

text \<open>
  StringToBigInt: surrounding white space is dropped, the empty string is \<open>0\<close>, then
  either a prefixed literal (\<^verbatim>\<open>0x\<close>, \<^verbatim>\<open>0o\<close>, \<^verbatim>\<open>0b\<close>, no sign) or decimal digits with an
  optional sign; no fraction, exponent or separator.
\<close>

definition stringToBigInt :: "string \<Rightarrow> int option" where
  "stringToBigInt s =
     (let t = trim s in
      if t = [] then Some 0
      else if length t \<ge> 2 \<and> hd t = CHR ''0'' \<and> t ! 1 \<in> {CHR ''x'', CHR ''X''}
        then map_option int (digits 16 (drop 2 t))
      else if length t \<ge> 2 \<and> hd t = CHR ''0'' \<and> t ! 1 \<in> {CHR ''o'', CHR ''O''}
        then map_option int (digits 8 (drop 2 t))
      else if length t \<ge> 2 \<and> hd t = CHR ''0'' \<and> t ! 1 \<in> {CHR ''b'', CHR ''B''}
        then map_option int (digits 2 (drop 2 t))
      else if hd t = CHR ''+'' then map_option int (digits 10 (tl t))
      else if hd t = CHR ''-'' then map_option (\<lambda>n. - int n) (digits 10 (tl t))
      else map_option int (digits 10 t))"

definition parseBigInt :: "('n, 'h) runtime \<Rightarrow> string \<Rightarrow> jserror + int" where
  "parseBigInt w s =
     (case stringToBigInt s of None \<Rightarrow> Inl (thrown w (BigIntSyntax s)) | Some i \<Rightarrow> Inr i)"

text \<open>\<^verbatim>\<open>BigInt(v)\<close>.\<close>

fun toBigInt :: "('n, 'h) runtime \<Rightarrow> 'n jsval \<Rightarrow> jserror + int" where
  "toBigInt w JUndefined = Inl (thrown w BigIntOfNullish)"
| "toBigInt w JNull = Inl (thrown w BigIntOfNullish)"
| "toBigInt w (JBool b) = Inr (if b then 1 else 0)"
| "toBigInt w (JNum n) =
     (case numToBigInt w n of None \<Rightarrow> Inl (thrown w BigIntOfFraction) | Some i \<Rightarrow> Inr i)"
| "toBigInt w (JStr s) = parseBigInt w s"
| "toBigInt w v =
     (case to_string w v of Inl e \<Rightarrow> Inl e | Inr s \<Rightarrow> parseBigInt w s)"

subsection \<open>Errors as the catch blocks read them\<close>

text \<open>\<^verbatim>\<open>String(error)\<close> and \<^verbatim>\<open>error.message || String(error)\<close> for an Error object.\<close>

definition error_to_string :: "jserror \<Rightarrow> string" where
  "error_to_string e =
     (if err_message e = [] then err_name e
      else if err_name e = [] then err_message e
      else err_name e @ '': '' @ err_message e)"

definition message_or_string :: "jserror \<Rightarrow> string" where
  "message_or_string e = (if err_message e \<noteq> [] then err_message e else error_to_string e)"

section \<open>Responses and the trace of calls\<close>

text \<open>
  A \<^verbatim>\<open>NextResponse\<close>: HTTP status, JSON body, and the headers the handler sets itself.
\<close>

record 'b http_response =
  status :: nat
  json_body :: 'b
  headers :: "(string \<times> string) list"

record 'n SettleResponse =
  success :: bool
  error :: "string option"
  txHash :: "string option"
  networkId :: "'n jsval"

definition json :: "'b \<Rightarrow> 'b http_response" where
  "json b = \<lparr>status = 200, json_body = b, headers = []\<rparr>"

definition json_status :: "'b \<Rightarrow> nat \<Rightarrow> 'b http_response" where
  "json_status b st = \<lparr>status = st, json_body = b, headers = []\<rparr>"

text \<open>
  The calls a handler makes to the runtime and to its collaborators, in the order it
  makes them, with their arguments.
\<close>

datatype ('n, 'h) call =
    UseApi "'n jsval"
  | Base64Decode string
  | JsonParse string
  | BalanceOf 'h "'n jsval" "'n jsval"
  | VerifyWithApi 'h "'n jsval"
  | SettleWithApi 'h "'n jsval" bool

fun delegated :: "('n, 'h) call \<Rightarrow> bool" where
  "delegated (VerifyWithApi api p) = True"
| "delegated (SettleWithApi api p opt) = True"
| "delegated c = False"

fun decoding :: "('n, 'h) call \<Rightarrow> bool" where
  "decoding (Base64Decode h) = True"
| "decoding (JsonParse t) = True"
| "decoding c = False"

text \<open>The body of a \<^verbatim>\<open>try\<close> block ends with \<^verbatim>\<open>return\<close> or with a thrown error.\<close>

datatype 'r outcome = Return 'r | Throw jserror

definition after ::
  "('n, 'h) call list \<Rightarrow> ('n, 'h) call list \<times> 'r outcome \<Rightarrow> ('n, 'h) call list \<times> 'r outcome" where
  "after cs r = (cs @ fst r, snd r)"

fun the_string :: "'n jsval \<Rightarrow> string option" where
  "the_string (JStr s) = Some s"
| "the_string v = None"

section \<open>The verify route\<close>

definition verify_reject :: "string \<Rightarrow> VerifyResponse http_response" where
  "verify_reject m = json \<lparr>isValid = False, invalidReason = Some m\<rparr>"

definition verify_reject_tpl ::
  "('n, 'h) runtime \<Rightarrow> 'n piece list \<Rightarrow> VerifyResponse http_response outcome" where
  "verify_reject_tpl w ps =
     (case template w ps of Inl e \<Rightarrow> Throw e | Inr m \<Rightarrow> Return (verify_reject m))"

text \<open>Lines 196-221: the delegated verification and the success response.\<close>

definition verify_delegate ::
  "('n, 'h) runtime \<Rightarrow> 'h \<Rightarrow> 'n jsval \<Rightarrow> int \<Rightarrow> int
     \<Rightarrow> ('n, 'h) call list \<times> VerifyResponse http_response outcome" where
  "verify_delegate w api paymentPayload startTime now =
     (case verifyWithApi w api paymentPayload of
        Inl e \<Rightarrow> ([VerifyWithApi api paymentPayload], Throw e)
      | Inr result \<Rightarrow>
          ([VerifyWithApi api paymentPayload],
           if \<not> isValid result
           then Return (json \<lparr>isValid = False, invalidReason = invalidReason result\<rparr>)
           else Return ((json \<lparr>isValid = True, invalidReason = None\<rparr>)
                  \<lparr>headers := [(''X-Verification-Time'', show_int (now - startTime))]\<rparr>)))"

text \<open>Lines 172-189: signature and transaction must be truthy.\<close>

definition verify_presence ::
  "('n, 'h) runtime \<Rightarrow> 'h \<Rightarrow> 'n jsval \<Rightarrow> int \<Rightarrow> int
     \<Rightarrow> ('n, 'h) call list \<times> VerifyResponse http_response outcome" where
  "verify_presence w api paymentPayload startTime now =
     (let signature = field (field paymentPayload ''payload'') ''signature'';
          transaction = field (field paymentPayload ''payload'') ''transaction''
      in if js_or (\<not> truthy w signature) (\<not> truthy w transaction)
         then ([], Return (verify_reject ''Invalid payload: missing signature or transaction''))
         else verify_delegate w api paymentPayload startTime now)"

text \<open>
  Lines 158-167: \<^verbatim>\<open>BigInt(paymentRequirements.maxAmountRequired)\<close>, then the arguments
  of \<^verbatim>\<open>balanceOf\<close> (reading \<^verbatim>\<open>paymentPayload.payload.transaction.address\<close>), the call, and
  the comparison.
\<close>

definition verify_balance ::
  "('n, 'h) runtime \<Rightarrow> 'h \<Rightarrow> 'n jsval \<Rightarrow> 'n jsval \<Rightarrow> int \<Rightarrow> int
     \<Rightarrow> ('n, 'h) call list \<times> VerifyResponse http_response outcome" where
  "verify_balance w api paymentRequirements paymentPayload startTime now =
     (case toBigInt w (field paymentRequirements ''maxAmountRequired'') of
        Inl e \<Rightarrow> ([], Throw e)
      | Inr amount \<Rightarrow>
          if nullish (field paymentPayload ''payload'')
          then ([], Throw (thrown w (ReadOfNullish ''transaction'')))
          else if nullish (field (field paymentPayload ''payload'') ''transaction'')
          then ([], Throw (thrown w (ReadOfNullish ''address'')))
          else
            let address = field (field (field paymentPayload ''payload'') ''transaction'') ''address'';
                asset = field paymentPayload ''asset''
            in (case balanceOf w api address asset of
                  Inl e \<Rightarrow> ([BalanceOf api address asset], Throw e)
                | Inr balance \<Rightarrow>
                    after [BalanceOf api address asset]
                      (if balance < amount
                       then ([], Return (verify_reject
                              (''Insufficient asset balance: expected '' @ show_int amount
                                 @ '', got '' @ show_int balance)))
                       else verify_presence w api paymentPayload startTime now)))"

text \<open>Lines 134-156: the payload against the requirements.\<close>

definition verify_mismatch ::
  "('n, 'h) runtime \<Rightarrow> 'h \<Rightarrow> 'n jsval \<Rightarrow> 'n jsval \<Rightarrow> int \<Rightarrow> int
     \<Rightarrow> ('n, 'h) call list \<times> VerifyResponse http_response outcome" where
  "verify_mismatch w api paymentRequirements paymentPayload startTime now =
     (if \<not> strict_eq (field paymentPayload ''scheme'') (field paymentRequirements ''scheme'')
      then ([], verify_reject_tpl w
              [Lit ''Scheme mismatch: expected '', Sub (field paymentRequirements ''scheme''),
               Lit '', got '', Sub (field paymentPayload ''scheme'')])
      else if \<not> strict_eq (field paymentPayload ''network'') (field paymentRequirements ''network'')
      then ([], verify_reject_tpl w
              [Lit ''Network mismatch: expected '', Sub (field paymentRequirements ''network''),
               Lit '', got '', Sub (field paymentPayload ''network'')])
      else if \<not> strict_eq (field paymentPayload ''asset'') (field paymentRequirements ''asset'')
      then ([], verify_reject_tpl w
              [Lit ''Asset mismatch: expected '', Sub (field paymentRequirements ''asset''),
               Lit '', got '', Sub (field paymentPayload ''asset'')])
      else verify_balance w api paymentRequirements paymentPayload startTime now)"

text \<open>
  Lines 94-131: \<^verbatim>\<open>paymentHeader.substring\<close> (a TypeError unless the header is a string),
  the two decoding steps, each in its own \<^verbatim>\<open>try\<close>, and the log of the parsed payload
  (which reads \<^verbatim>\<open>paymentPayload.x402Version\<close>).
\<close>

definition verify_decode ::
  "('n, 'h) runtime \<Rightarrow> 'h \<Rightarrow> 'n jsval \<Rightarrow> 'n jsval \<Rightarrow> int \<Rightarrow> int
     \<Rightarrow> ('n, 'h) call list \<times> VerifyResponse http_response outcome" where
  "verify_decode w api paymentRequirements paymentHeader startTime now =
     (case the_string paymentHeader of
        None \<Rightarrow> ([], Throw (thrown w (NotAFunction ''paymentHeader.substring'')))
      | Some h \<Rightarrow>
          (case base64Decode w h of
             Inl decodeError \<Rightarrow>
               ([Base64Decode h],
                Return (verify_reject ''Invalid base64 encoding in X-PAYMENT header''))
           | Inr paymentPayloadJson \<Rightarrow>
               after [Base64Decode h]
                 (case jsonParse w paymentPayloadJson of
                    Inl parseError \<Rightarrow>
                      ([JsonParse paymentPayloadJson],
                       Return (verify_reject ''Invalid JSON in payment payload''))
                  | Inr paymentPayload \<Rightarrow>
                      after [JsonParse paymentPayloadJson]
                        (if nullish paymentPayload
                         then ([], Throw (thrown w (ReadOfNullish ''x402Version'')))
                         else verify_mismatch w api paymentRequirements paymentPayload
                                startTime now))))"

text \<open>
  Lines 33-90. \<open>request\<close> is the result of \<^verbatim>\<open>await request.json()\<close>. The log of the
  request body (lines 36-45) reads \<^verbatim>\<open>paymentRequirements.scheme\<close> before any gate.
\<close>

definition verify_try ::
  "('n, 'h) runtime \<Rightarrow> jserror + 'n jsval \<Rightarrow> int \<Rightarrow> int
     \<Rightarrow> ('n, 'h) call list \<times> VerifyResponse http_response outcome" where
  "verify_try w request startTime now =
     (case request of
        Inl e \<Rightarrow> ([], Throw e)
      | Inr body \<Rightarrow>
          if nullish body then ([], Throw (thrown w DestructureNullish))
          else
            let x402Version = field body ''x402Version'';
                paymentHeader = field body ''paymentHeader'';
                paymentRequirements = field body ''paymentRequirements''
            in
            if nullish paymentRequirements
            then ([], Throw (thrown w (ReadOfNullish ''scheme'')))
            else if \<not> strict_eq x402Version (JNum (X402_VERSION w))
            then ([], verify_reject_tpl w [Lit ''Unsupported x402 version: '', Sub x402Version])
            else if js_or (\<not> truthy w paymentHeader) (\<not> truthy w paymentRequirements)
            then ([], Return (json_status
                    \<lparr>isValid = False,
                     invalidReason = Some ''Missing paymentHeader or paymentRequirements''\<rparr> 400))
            else if \<not> strict_eq (field paymentRequirements ''scheme'') (JStr (X402_SCHEME w))
            then ([], verify_reject_tpl w
                    [Lit ''Unsupported scheme: '', Sub (field paymentRequirements ''scheme'')])
            else
              let network = field paymentRequirements ''network'' in
              if js_or (\<not> truthy w network) (\<not> includes_network (validVaraNetworks w) network)
              then ([], verify_reject_tpl w
                      [Lit ''Invalid Vara network: '', Sub network,
                       Lit ''. Expected one of '', Lit (join '','' (validVaraNetworks w))])
              else
                (case useApi w network of
                   Inl e \<Rightarrow> ([UseApi network], Throw e)
                 | Inr api \<Rightarrow>
                     after [UseApi network]
                       (verify_decode w api paymentRequirements paymentHeader startTime now)))"

text \<open>
  The handler: the \<^verbatim>\<open>try\<close> block and its \<^verbatim>\<open>catch\<close> (lines 223-232). \<open>startTime\<close> and
  \<open>now\<close> are the two readings of \<^verbatim>\<open>Date.now()\<close>.
\<close>

definition POST_verify ::
  "('n, 'h) runtime \<Rightarrow> jserror + 'n jsval \<Rightarrow> int \<Rightarrow> int
     \<Rightarrow> ('n, 'h) call list \<times> VerifyResponse http_response" where
  "POST_verify w request startTime now =
     (case verify_try w request startTime now of
        (calls, Return response) \<Rightarrow> (calls, response)
      | (calls, Throw err) \<Rightarrow>
          (calls, json_status
             \<lparr>isValid = False, invalidReason = Some (message_or_string err)\<rparr> 500))"

section \<open>The settle route\<close>

definition settle_reject :: "string option \<Rightarrow> 'n SettleResponse http_response" where
  "settle_reject m = json \<lparr>success = False, error = m, txHash = None, networkId = JNull\<rparr>"

definition settle_reject_tpl ::
  "('n, 'h) runtime \<Rightarrow> 'n piece list \<Rightarrow> 'n SettleResponse http_response outcome" where
  "settle_reject_tpl w ps =
     (case template w ps of Inl e \<Rightarrow> Throw e | Inr m \<Rightarrow> Return (settle_reject (Some m)))"

text \<open>
  Lines 419-457: the delegated settlement, always with \<^verbatim>\<open>waitForFinalization: false\<close>,
  and the success response.
\<close>

definition settle_delegate ::
  "('n, 'h) runtime \<Rightarrow> 'h \<Rightarrow> 'n jsval \<Rightarrow> 'n jsval \<Rightarrow> int \<Rightarrow> int
     \<Rightarrow> ('n, 'h) call list \<times> 'n SettleResponse http_response outcome" where
  "settle_delegate w api network paymentPayload startTime now =
     (case settleWithApi w api paymentPayload False of
        Inl e \<Rightarrow> ([SettleWithApi api paymentPayload False], Throw e)
      | Inr result \<Rightarrow>
          ([SettleWithApi api paymentPayload False],
           if \<not> r_success result
           then Return (settle_reject (r_message result))
           else Return ((json \<lparr>success = True, error = None, txHash = r_txHash result,
                               networkId = network\<rparr>)
                  \<lparr>headers := [(''X-Settlement-Time'', show_int (now - startTime))]\<rparr>)))"

text \<open>
  Lines 394-413: reading \<^verbatim>\<open>paymentPayload.payload.signature\<close> throws when the payload
  has no \<^verbatim>\<open>payload\<close>; then signature and transaction must be truthy.
\<close>

definition settle_presence ::
  "('n, 'h) runtime \<Rightarrow> 'h \<Rightarrow> 'n jsval \<Rightarrow> 'n jsval \<Rightarrow> int \<Rightarrow> int
     \<Rightarrow> ('n, 'h) call list \<times> 'n SettleResponse http_response outcome" where
  "settle_presence w api network paymentPayload startTime now =
     (if nullish (field paymentPayload ''payload'')
      then ([], Throw (thrown w (ReadOfNullish ''signature'')))
      else
        let signature = field (field paymentPayload ''payload'') ''signature'';
            transaction = field (field paymentPayload ''payload'') ''transaction''
        in if js_or (\<not> truthy w signature) (\<not> truthy w transaction)
           then ([], Return (settle_reject
                   (Some ''Invalid payload: missing signature or transaction'')))
           else settle_delegate w api network paymentPayload startTime now)"

text \<open>Lines 374-392: scheme and network of the payload against the requirements.\<close>

definition settle_mismatch ::
  "('n, 'h) runtime \<Rightarrow> 'h \<Rightarrow> 'n jsval \<Rightarrow> 'n jsval \<Rightarrow> int \<Rightarrow> int
     \<Rightarrow> ('n, 'h) call list \<times> 'n SettleResponse http_response outcome" where
  "settle_mismatch w api paymentRequirements paymentPayload startTime now =
     (if \<not> strict_eq (field paymentPayload ''scheme'') (field paymentRequirements ''scheme'')
      then ([], settle_reject_tpl w
              [Lit ''Scheme mismatch: expected '', Sub (field paymentRequirements ''scheme''),
               Lit '', got '', Sub (field paymentPayload ''scheme'')])
      else if \<not> strict_eq (field paymentPayload ''network'') (field paymentRequirements ''network'')
      then ([], settle_reject_tpl w
              [Lit ''Network mismatch: expected '', Sub (field paymentRequirements ''network''),
               Lit '', got '', Sub (field paymentPayload ''network'')])
      else settle_presence w api (field paymentRequirements ''network'') paymentPayload
             startTime now)"

text \<open>
  Lines 331-371. The \<^verbatim>\<open>catch\<close> of the base64 step (lines 338-347) answers with the text
  of the network gate.
\<close>

definition settle_decode ::
  "('n, 'h) runtime \<Rightarrow> 'h \<Rightarrow> 'n jsval \<Rightarrow> 'n jsval \<Rightarrow> int \<Rightarrow> int
     \<Rightarrow> ('n, 'h) call list \<times> 'n SettleResponse http_response outcome" where
  "settle_decode w api paymentRequirements paymentHeader startTime now =
     (case the_string paymentHeader of
        None \<Rightarrow> ([], Throw (thrown w (NotAFunction ''paymentHeader.substring'')))
      | Some h \<Rightarrow>
          (case base64Decode w h of
             Inl decodeError \<Rightarrow>
               ([Base64Decode h],
                settle_reject_tpl w
                  [Lit ''Invalid Vara network: '', Sub (field paymentRequirements ''network''),
                   Lit ''. Expected one of '', Lit (join '','' (validVaraNetworks w))])
           | Inr paymentPayloadJson \<Rightarrow>
               after [Base64Decode h]
                 (case jsonParse w paymentPayloadJson of
                    Inl parseError \<Rightarrow>
                      ([JsonParse paymentPayloadJson],
                       Return (settle_reject (Some ''Invalid JSON in payment payload'')))
                  | Inr paymentPayload \<Rightarrow>
                      after [JsonParse paymentPayloadJson]
                        (if nullish paymentPayload
                         then ([], Throw (thrown w (ReadOfNullish ''x402Version'')))
                         else settle_mismatch w api paymentRequirements paymentPayload
                                startTime now))))"

text \<open>
  Lines 265-327. As in the verify route, the log of the request body (lines 268-274)
  reads \<^verbatim>\<open>paymentRequirements.scheme\<close> before any gate.
\<close>

definition settle_try ::
  "('n, 'h) runtime \<Rightarrow> jserror + 'n jsval \<Rightarrow> int \<Rightarrow> int
     \<Rightarrow> ('n, 'h) call list \<times> 'n SettleResponse http_response outcome" where
  "settle_try w request startTime now =
     (case request of
        Inl e \<Rightarrow> ([], Throw e)
      | Inr body \<Rightarrow>
          if nullish body then ([], Throw (thrown w DestructureNullish))
          else
            let x402Version = field body ''x402Version'';
                paymentHeader = field body ''paymentHeader'';
                paymentRequirements = field body ''paymentRequirements''
            in
            if nullish paymentRequirements
            then ([], Throw (thrown w (ReadOfNullish ''scheme'')))
            else if \<not> strict_eq x402Version (JNum (X402_VERSION w))
            then ([], settle_reject_tpl w [Lit ''Unsupported x402 version: '', Sub x402Version])
            else if js_or (\<not> truthy w paymentHeader) (\<not> truthy w paymentRequirements)
            then ([], Return (json_status
                    \<lparr>success = False,
                     error = Some ''Missing paymentHeader or paymentRequirements'',
                     txHash = None, networkId = JNull\<rparr> 400))
            else if \<not> strict_eq (field paymentRequirements ''scheme'') (JStr (X402_SCHEME w))
            then ([], settle_reject_tpl w
                    [Lit ''Unsupported scheme: '', Sub (field paymentRequirements ''scheme'')])
            else
              let network = field paymentRequirements ''network'' in
              if js_or (\<not> truthy w network) (\<not> includes_network (validVaraNetworks w) network)
              then ([], settle_reject_tpl w
                      [Lit ''Invalid Vara network: '', Sub network,
                       Lit ''. Expected one of '', Lit (join '','' (validVaraNetworks w))])
              else
                (case useApi w network of
                   Inl e \<Rightarrow> ([UseApi network], Throw e)
                 | Inr api \<Rightarrow>
                     after [UseApi network]
                       (settle_decode w api paymentRequirements paymentHeader startTime now)))"

text \<open>The three markers of a duplicate submission (lines 466-468).\<close>

definition is_duplicate :: "string \<Rightarrow> bool" where
  "is_duplicate m =
     js_or (str_includes m ''SEQUENCE_NUMBER_TOO_OLD'')
       (js_or (str_includes m ''INVALID_SEQ_NUMBER'') (str_includes m ''already submitted''))"

text \<open>The handler: the \<^verbatim>\<open>try\<close> block and its \<^verbatim>\<open>catch\<close> (lines 459-486).\<close>

definition POST_settle ::
  "('n, 'h) runtime \<Rightarrow> jserror + 'n jsval \<Rightarrow> int \<Rightarrow> int
     \<Rightarrow> ('n, 'h) call list \<times> 'n SettleResponse http_response" where
  "POST_settle w request startTime now =
     (case settle_try w request startTime now of
        (calls, Return response) \<Rightarrow> (calls, response)
      | (calls, Throw err) \<Rightarrow>
          if is_duplicate (err_message err)
          then (calls, json_status
                  \<lparr>success = False, error = Some ''Transaction already used'',
                   txHash = None, networkId = JNull\<rparr> 409)
          else (calls, json_status
                  \<lparr>success = False, error = Some (message_or_string err),
                   txHash = None, networkId = JNull\<rparr> 500))"

section \<open>Notions used to state the properties\<close>

text \<open>
  The gates of lines 36-86 (verify) and 268-323 (settle), which are the same in both
  routes: the body and its \<^verbatim>\<open>paymentRequirements\<close> can be read, the version is the
  supported one, header and requirements are truthy, the scheme is the supported one and
  the network is one of the valid networks.
\<close>

definition passes_gates :: "('n, 'h) runtime \<Rightarrow> 'n jsval \<Rightarrow> bool" where
  "passes_gates w body =
     (\<not> nullish body \<and> \<not> nullish (field body ''paymentRequirements'')
      \<and> strict_eq (field body ''x402Version'') (JNum (X402_VERSION w))
      \<and> truthy w (field body ''paymentHeader'')
      \<and> truthy w (field body ''paymentRequirements'')
      \<and> strict_eq (field (field body ''paymentRequirements'') ''scheme'') (JStr (X402_SCHEME w))
      \<and> truthy w (field (field body ''paymentRequirements'') ''network'')
      \<and> includes_network (validVaraNetworks w)
            (field (field body ''paymentRequirements'') ''network''))"

text \<open>
  The text \<^verbatim>\<open>"<What> mismatch: expected {X}, got {Y}"\<close> of the specification, for two
  values that can be converted to strings.
\<close>

definition mismatch_text :: "('n, 'h) runtime \<Rightarrow> string \<Rightarrow> 'n jsval \<Rightarrow> 'n jsval \<Rightarrow> string" where
  "mismatch_text w what expected got =
     what @ '' mismatch: expected '' @ render (numToString w) expected
       @ '', got '' @ render (numToString w) got"

section \<open>A runtime to run the handlers on\<close>

text \<open>
  A runtime with integer numbers, version \<open>1\<close>, scheme \<^verbatim>\<open>exact\<close>, two networks, and
  collaborators that answer every call the same way: the header decodes, the decoded
  text parses to \<open>p\<close>, and the balance query and the two delegates give \<open>bal\<close>, \<open>vr\<close>
  and \<open>sr\<close>. The constants of the library are not in this repository; the values
  here are examples.
\<close>

fun sample_fault_text :: "engine_fault \<Rightarrow> string" where
  "sample_fault_text (ReadOfNullish k) = ''Cannot read properties of undefined (reading '' @ k @ '')''"
| "sample_fault_text (NotAFunction f) = f @ '' is not a function''"
| "sample_fault_text f = ''engine fault''"

definition sample_runtime ::
  "int jsval \<Rightarrow> jserror + int \<Rightarrow> jserror + VerifyResponse \<Rightarrow> jserror + SettleResult
     \<Rightarrow> (int, unit) runtime" where
  "sample_runtime p bal vr sr =
     \<lparr>X402_VERSION = 1,
      X402_SCHEME = ''exact'',
      validVaraNetworks = [''vara'', ''vara-testnet''],
      numToString = show_int,
      numIsZero = (\<lambda>n. n = 0),
      numToBigInt = Some,
      faultText = sample_fault_text,
      base64Decode = (\<lambda>h. Inr ''decoded header''),
      jsonParse = (\<lambda>t. Inr p),
      useApi = (\<lambda>n. Inr ()),
      balanceOf = (\<lambda>api a s. bal),
      verifyWithApi = (\<lambda>api q. vr),
      settleWithApi = (\<lambda>api q opt. sr)\<rparr>"

definition sample_requirements :: "int jsval" where
  "sample_requirements =
     JObj [(''scheme'', JStr ''exact''), (''network'', JStr ''vara-testnet''),
           (''maxAmountRequired'', JStr ''1000000000000''), (''payTo'', JStr ''kGkPayee''),
           (''asset'', JStr ''native'')]"

definition sample_request :: "int jsval" where
  "sample_request =
     JObj [(''x402Version'', JNum 1), (''paymentHeader'', JStr ''eyJ4NDAyVmVyc2lvbiI6MX0=''),
           (''paymentRequirements'', sample_requirements)]"

definition sample_payload :: "int jsval" where
  "sample_payload =
     JObj [(''x402Version'', JNum 1), (''scheme'', JStr ''exact''),
           (''network'', JStr ''vara-testnet''), (''asset'', JStr ''native''),
           (''payload'',
            JObj [(''signature'', JStr ''0x01ab''),
                  (''transaction'', JObj [(''address'', JStr ''kGkPayer'')])])]"

text \<open>The sample payload without its transaction.\<close>

definition payload_without_transaction :: "int jsval" where
  "payload_without_transaction =
     JObj [(''x402Version'', JNum 1), (''scheme'', JStr ''exact''),
           (''network'', JStr ''vara-testnet''), (''asset'', JStr ''native''),
           (''payload'', JObj [(''signature'', JStr ''0x01ab'')])]"

text \<open>A request body with a header and no \<^verbatim>\<open>paymentRequirements\<close>.\<close>

definition request_without_requirements :: "'n \<Rightarrow> 'n jsval" where
  "request_without_requirements v =
     JObj [(''x402Version'', JNum v), (''paymentHeader'', JStr ''eyJ4NDAyVmVyc2lvbiI6MX0='')]"

text \<open>A request body with (empty) \<^verbatim>\<open>paymentRequirements\<close> and no header.\<close>

definition request_without_header :: "'n \<Rightarrow> 'n jsval" where
  "request_without_header v =
     JObj [(''x402Version'', JNum v), (''paymentRequirements'', JObj [])]"

text \<open>
  A body with the empty string as header, and a payload like the sample one with the
  given scheme, network and asset.
\<close>

definition empty_header_request :: "int \<Rightarrow> int jsval" where
  "empty_header_request v =
     JObj [(''x402Version'', JNum v), (''paymentHeader'', JStr []),
           (''paymentRequirements'', sample_requirements)]"

definition payload_of :: "string \<Rightarrow> string \<Rightarrow> string \<Rightarrow> int jsval" where
  "payload_of sch net ast =
     JObj [(''x402Version'', JNum 1), (''scheme'', JStr sch),
           (''network'', JStr net), (''asset'', JStr ast),
           (''payload'',
            JObj [(''signature'', JStr ''0x01ab''),
                  (''transaction'', JObj [(''address'', JStr ''kGkPayer'')])])]"

text \<open>
  Four runtimes on the sample payload: the payer has enough and both delegates accept;
  the payer has half of what is required; the settlement delegate throws a duplicate
  error; the settlement delegate returns a failure with such a message.
\<close>

definition funded_runtime :: "(int, unit) runtime" where
  "funded_runtime =
     sample_runtime sample_payload (Inr 5000000000000)
       (Inr \<lparr>isValid = True, invalidReason = None\<rparr>)
       (Inr \<lparr>r_success = True, r_txHash = Some ''0xfeed'', r_message = None\<rparr>)"

definition underfunded_runtime :: "(int, unit) runtime" where
  "underfunded_runtime =
     sample_runtime sample_payload (Inr 500000000000)
       (Inr \<lparr>isValid = True, invalidReason = None\<rparr>)
       (Inr \<lparr>r_success = True, r_txHash = Some ''0xfeed'', r_message = None\<rparr>)"

definition throwing_runtime :: "(int, unit) runtime" where
  "throwing_runtime =
     sample_runtime sample_payload (Inr 5000000000000)
       (Inr \<lparr>isValid = True, invalidReason = None\<rparr>)
       (Inl (JsError ''Error'' ''1014: Priority is too low: already submitted''))"

definition refusing_runtime :: "(int, unit) runtime" where
  "refusing_runtime =
     sample_runtime sample_payload (Inr 5000000000000)
       (Inr \<lparr>isValid = True, invalidReason = None\<rparr>)
       (Inr \<lparr>r_success = False, r_txHash = None, r_message = Some ''INVALID_SEQ_NUMBER''\<rparr>)"

text \<open>The funded runtime on another payload.\<close>

definition runtime_on :: "int jsval \<Rightarrow> (int, unit) runtime" where
  "runtime_on p =
     sample_runtime p (Inr 5000000000000)
       (Inr \<lparr>isValid = True, invalidReason = None\<rparr>)
       (Inr \<lparr>r_success = True, r_txHash = Some ''0xfeed'', r_message = None\<rparr>)"

text \<open>
  What \<^verbatim>\<open>Buffer.from(s, 'base64')\<close> reads from a string: characters outside the base64
  alphabet (standard or URL-safe) are skipped, reading stops at the first \<^verbatim>\<open>=\<close>, four
  characters give three bytes and a shorter last group gives the bytes it fills. No
  string makes it throw.
\<close>

definition sextet :: "char \<Rightarrow> nat option" where
  "sextet c =
     (let n = (of_char c :: nat) in
      if 65 \<le> n \<and> n \<le> 90 then Some (n - 65)
      else if 97 \<le> n \<and> n \<le> 122 then Some (n - 71)
      else if 48 \<le> n \<and> n \<le> 57 then Some (n + 4)
      else if n = 43 \<or> n = 45 then Some 62
      else if n = 47 \<or> n = 95 then Some 63
      else None)"

fun sextets :: "string \<Rightarrow> nat list" where
  "sextets [] = []"
| "sextets (c # cs) =
     (if c = CHR ''='' then []
      else case sextet c of None \<Rightarrow> sextets cs | Some v \<Rightarrow> v # sextets cs)"

fun octets :: "nat list \<Rightarrow> nat list" where
  "octets (a # b # c # d # rest) =
     (a * 4 + b div 16) # ((b mod 16) * 16 + c div 4) # ((c mod 4) * 64 + d) # octets rest"
| "octets [a, b, c] = [a * 4 + b div 16, (b mod 16) * 16 + c div 4]"
| "octets [a, b] = [a * 4 + b div 16]"
| "octets v = []"

text \<open>
  \<^verbatim>\<open>Buffer.from(s, 'base64').toString('utf-8')\<close>, the bytes as 8-bit characters (the
  UTF-8 text itself when every byte is ASCII).
\<close>

definition buffer_base64 :: "string \<Rightarrow> string" where
  "buffer_base64 s = map char_of (octets (sextets s))"

text \<open>
  The funded runtime with that decoding step and a \<^verbatim>\<open>JSON.parse\<close> that rejects the empty
  text, as every \<^verbatim>\<open>JSON.parse\<close> does; and the sample request with a header that is not
  base64.
\<close>

definition buffer_runtime :: "(int, unit) runtime" where
  "buffer_runtime =
     funded_runtime
     \<lparr>base64Decode := (\<lambda>h. Inr (buffer_base64 h)),
      jsonParse := (\<lambda>t. if t = [] then Inl (JsError ''SyntaxError'' ''Unexpected end of JSON input'')
                        else Inr sample_payload)\<rparr>"

definition invalid_base64_request :: "int jsval" where
  "invalid_base64_request =
     JObj [(''x402Version'', JNum 1), (''paymentHeader'', JStr ''!!!!''),
           (''paymentRequirements'', sample_requirements)]"

text \<open>
  What a response of the settle route looks like, given the network of the requirements
  and the calls made: the time header goes with success; a success carries that
  network, no error and the hash returned by the last call, which is the settlement
  delegate's; a failure carries neither hash nor network.
\<close>

definition settle_ok ::
  "('n, 'h) runtime \<Rightarrow> 'n jsval \<Rightarrow> int \<Rightarrow> int \<Rightarrow> ('n, 'h) call list
     \<Rightarrow> 'n SettleResponse http_response \<Rightarrow> bool" where
  "settle_ok w net t0 t1 calls r =
     (headers r = (if success (json_body r)
                   then [(''X-Settlement-Time'', show_int (t1 - t0))] else [])
      \<and> (if success (json_body r)
          then networkId (json_body r) = net \<and> error (json_body r) = None
               \<and> (\<exists>api p res. calls \<noteq> [] \<and> last calls = SettleWithApi api p False
                      \<and> settleWithApi w api p False = Inr res
                      \<and> txHash (json_body r) = r_txHash res)
          else txHash (json_body r) = None \<and> networkId (json_body r) = JNull))"

section \<open>Evaluation rules\<close>

lemmas js_defs =
  js_or_def Let_def to_string_def thrown_def message_or_string_def error_to_string_def
  parseBigInt_def stringToBigInt_def trim_def is_ws_def digits_def digit_val_def
  show_int_def showNat.simps digit_char_def

lemmas verify_defs =
  POST_verify_def verify_try_def verify_decode_def verify_mismatch_def verify_balance_def
  verify_presence_def verify_delegate_def verify_reject_tpl_def verify_reject_def
  after_def json_def json_status_def

lemmas settle_defs =
  POST_settle_def settle_try_def settle_decode_def settle_mismatch_def settle_presence_def
  settle_delegate_def settle_reject_tpl_def settle_reject_def is_duplicate_def
  after_def json_def json_status_def

lemmas sample_defs =
  sample_runtime_def sample_request_def sample_requirements_def sample_payload_def
  payload_without_transaction_def request_without_requirements_def
  buffer_runtime_def invalid_base64_request_def
  request_without_header_def
  empty_header_request_def payload_of_def funded_runtime_def underfunded_runtime_def
  throwing_runtime_def refusing_runtime_def runtime_on_def

section \<open>Requests without paymentRequirements\<close>

text \<open>
  C1. The claim: a request whose body lacks \<^verbatim>\<open>paymentHeader\<close> or
  \<^verbatim>\<open>paymentRequirements\<close>, with the supported version, is answered with HTTP 400 and
  \<^verbatim>\<open>"Missing paymentHeader or paymentRequirements"\<close>, by the handler and not by the HTTP
  500 path. The code on a body with the supported version and a header but no
  \<^verbatim>\<open>paymentRequirements\<close>: the log of the request body (lines 40 and 272) reads
  \<^verbatim>\<open>paymentRequirements.scheme\<close>, which throws a TypeError before the gate of lines 58 and
  289 is reached; the \<^verbatim>\<open>catch\<close> block answers, with HTTP 500 in the verify route and
  with 500 (or 409, should the engine's text hold one of the duplicate markers) in the
  settle route, never with 400. A body that lacks the header only does get the 400.
\<close>

theorem C1_absent_requirements_reach_the_catch:
  "POST_verify w (Inr (request_without_requirements (X402_VERSION w))) t0 t1
     = ([], json_status
          \<lparr>isValid = False,
           invalidReason = Some (message_or_string (thrown w (ReadOfNullish ''scheme'')))\<rparr> 500)
   \<and> fst (POST_settle w (Inr (request_without_requirements (X402_VERSION w))) t0 t1) = []
   \<and> status (snd (POST_settle w (Inr (request_without_requirements (X402_VERSION w))) t0 t1))
       = (if is_duplicate (faultText w (ReadOfNullish ''scheme'')) then 409 else 500)
   \<and> POST_verify w (Inr (request_without_header (X402_VERSION w))) t0 t1
     = ([], json_status
          \<lparr>isValid = False,
           invalidReason = Some ''Missing paymentHeader or paymentRequirements''\<rparr> 400)
   \<and> POST_settle w (Inr (request_without_header (X402_VERSION w))) t0 t1
     = ([], json_status
          \<lparr>success = False, error = Some ''Missing paymentHeader or paymentRequirements'',
           txHash = None, networkId = JNull\<rparr> 400)"
  by (simp add: POST_verify_def verify_try_def POST_settle_def settle_try_def
      request_without_requirements_def request_without_header_def json_status_def thrown_def
      js_or_def)

text \<open>
  C6. The claim: a request whose \<^verbatim>\<open>x402Version\<close> is not the supported one is answered
  with \<^verbatim>\<open>"Unsupported x402 version: {version}"\<close> whatever the other fields are, absent
  ones included. The code on a body with version \<open>2\<close> (the supported one being \<open>1\<close>)
  and no \<^verbatim>\<open>paymentRequirements\<close>: the same log statement throws before the version gate
  of lines 48 and 277, and both routes answer with HTTP 500 and the engine's text.
\<close>

theorem C6_version_gate_after_the_log:
  "POST_verify (sample_runtime p bal vr sr) (Inr (request_without_requirements 2)) t0 t1
     = ([], json_status
          \<lparr>isValid = False,
           invalidReason = Some ''Cannot read properties of undefined (reading scheme)''\<rparr> 500)
   \<and> POST_settle (sample_runtime p bal vr sr) (Inr (request_without_requirements 2)) t0 t1
     = ([], json_status
          \<lparr>success = False,
           error = Some ''Cannot read properties of undefined (reading scheme)'',
           txHash = None, networkId = JNull\<rparr> 500)"
  by (simp add: verify_defs settle_defs sample_defs js_defs)

section \<open>The decoding steps\<close>

text \<open>The decoding step on a base64 header: the JSON text that was encoded.\<close>

lemma buffer_base64_sample:
  \<open>buffer_base64 ''eyJ4NDAyVmVyc2lvbiI6MX0='' = ''{"x402Version":1}''\<close>
  by code_simp

text \<open>
  C3. The claim: in both routes a failure of the base64 step is answered with
  \<^verbatim>\<open>"Invalid base64 encoding in X-PAYMENT header"\<close> and a failure of the JSON step with
  \<^verbatim>\<open>"Invalid JSON in payment payload"\<close>. The code on a request that passes the gates and
  whose header \<^verbatim>\<open>!!!!\<close> is not base64: \<^verbatim>\<open>Buffer.from\<close> does not throw on it, it skips
  the four characters and gives the empty text, so the \<^verbatim>\<open>catch\<close> of lines 101-108 and
  338-347 is not taken; \<^verbatim>\<open>JSON.parse\<close> then throws on the empty text and both routes
  answer HTTP 200 with the text of the JSON step.
\<close>

theorem C3_invalid_base64_answered_as_invalid_json:
  "base64Decode buffer_runtime ''!!!!'' = Inr []
   \<and> POST_verify buffer_runtime (Inr invalid_base64_request) t0 t1
     = ([UseApi (JStr ''vara-testnet''), Base64Decode ''!!!!'', JsonParse []],
        json \<lparr>isValid = False, invalidReason = Some ''Invalid JSON in payment payload''\<rparr>)
   \<and> POST_settle buffer_runtime (Inr invalid_base64_request) t0 t1
     = ([UseApi (JStr ''vara-testnet''), Base64Decode ''!!!!'', JsonParse []],
        json \<lparr>success = False, error = Some ''Invalid JSON in payment payload'',
              txHash = None, networkId = JNull\<rparr>)"
  by (simp add: verify_defs settle_defs sample_defs js_defs buffer_base64_def sextet_def)

section \<open>Balance and presence in the verify route\<close>

text \<open>
  C4. The claim: when \<^verbatim>\<open>payload.signature\<close> or \<^verbatim>\<open>payload.transaction\<close> is absent, the
  verify route answers HTTP 200 with
  \<^verbatim>\<open>"Invalid payload: missing signature or transaction"\<close>. The code on a payload that
  passes the mismatch gates and has a signature but no transaction: the arguments of
  \<^verbatim>\<open>balanceOf\<close> (line 159) read \<^verbatim>\<open>paymentPayload.payload.transaction.address\<close>, which
  throws before the presence gate of line 180; the balance is never queried and the
  answer is HTTP 500 with the engine's text. The settle route, which has no balance
  step, answers the same payload with the text of the claim.
\<close>

theorem C4_absent_transaction_reaches_the_catch:
  "POST_verify (sample_runtime payload_without_transaction bal vr sr) (Inr sample_request) t0 t1
     = ([UseApi (JStr ''vara-testnet''), Base64Decode ''eyJ4NDAyVmVyc2lvbiI6MX0='',
         JsonParse ''decoded header''],
        json_status
          \<lparr>isValid = False,
           invalidReason = Some ''Cannot read properties of undefined (reading address)''\<rparr> 500)
   \<and> POST_settle (sample_runtime payload_without_transaction bal vr sr) (Inr sample_request) t0 t1
     = ([UseApi (JStr ''vara-testnet''), Base64Decode ''eyJ4NDAyVmVyc2lvbiI6MX0='',
         JsonParse ''decoded header''],
        json \<lparr>success = False,
              error = Some ''Invalid payload: missing signature or transaction'',
              txHash = None, networkId = JNull\<rparr>)"
  by (simp add: verify_defs settle_defs sample_defs js_defs)

section \<open>Traces and outcomes, stage by stage\<close>

lemma fst_after [simp]: "fst (after cs r) = cs @ fst r"
  by (simp add: after_def)

lemma snd_after [simp]: "snd (after cs r) = snd r"
  by (simp add: after_def)

lemma strict_eq_JStr: "strict_eq v (JStr s) \<Longrightarrow> v = JStr s"
  by (cases v) auto

lemma includes_network_JStr: "includes_network nets v \<Longrightarrow> \<exists>s. v = JStr s \<and> s \<in> set nets"
  by (cases v) auto

lemma passes_gates_strings:
  assumes "passes_gates w body"
  shows "field (field body ''paymentRequirements'') ''scheme'' = JStr (X402_SCHEME w)"
    and "\<exists>s. field (field body ''paymentRequirements'') ''network'' = JStr s"
  using assms
  by (auto simp: passes_gates_def dest: strict_eq_JStr includes_network_JStr)

subsection \<open>The verify route\<close>

lemma verify_delegate_calls:
  "fst (verify_delegate w api p t0 t1) = [VerifyWithApi api p]"
  by (simp add: verify_delegate_def split: sum.splits)

lemma verify_presence_calls:
  assumes "c \<in> set (fst (verify_presence w api p t0 t1))"
  shows "c = VerifyWithApi api p
     \<and> snd (verify_presence w api p t0 t1) = snd (verify_delegate w api p t0 t1)"
  using assms
  by (auto simp: verify_presence_def verify_delegate_calls js_or_def Let_def split: if_splits)

lemma verify_balance_calls:
  assumes "c \<in> set (fst (verify_balance w api req p t0 t1))"
  shows "c = BalanceOf api (field (field (field p ''payload'') ''transaction'') ''address'')
               (field p ''asset'')
     \<or> c = VerifyWithApi api p
        \<and> snd (verify_balance w api req p t0 t1) = snd (verify_delegate w api p t0 t1)"
  using assms
  by (auto simp: verify_balance_def Let_def split: sum.splits if_splits
      dest!: verify_presence_calls)

lemma verify_balance_called:
  assumes "BalanceOf api' a s \<in> set (fst (verify_balance w api req p t0 t1))"
    and "toBigInt w (field req ''maxAmountRequired'') = Inr amount"
    and "balanceOf w api' a s = Inr balance"
    and "balance < amount"
  shows "snd (verify_balance w api req p t0 t1)
     = Return (verify_reject (''Insufficient asset balance: expected '' @ show_int amount
         @ '', got '' @ show_int balance))"
  using assms
  by (auto simp: verify_balance_def Let_def split: sum.splits if_splits
      dest!: verify_presence_calls)

lemma verify_mismatch_calls:
  assumes "c \<in> set (fst (verify_mismatch w api req p t0 t1))"
  shows "verify_mismatch w api req p t0 t1 = verify_balance w api req p t0 t1"
  using assms
  by (auto simp: verify_mismatch_def split: if_splits)

lemma verify_mismatch_not_decoding:
  assumes "c \<in> set (fst (verify_mismatch w api req p t0 t1))"
  shows "\<not> decoding c"
  using verify_balance_calls [of c w api req p t0 t1] verify_mismatch_calls [OF assms] assms
  by auto

lemma verify_decode_calls:
  assumes "c \<in> set (fst (verify_decode w api req hdr t0 t1))"
  shows "\<exists>h. hdr = JStr h \<and>
     (c = Base64Decode h
      \<or> (\<exists>jtext. base64Decode w h = Inr jtext \<and>
           (c = JsonParse jtext
            \<or> (\<exists>p. jsonParse w jtext = Inr p \<and> \<not> nullish p
                 \<and> c \<in> set (fst (verify_mismatch w api req p t0 t1))
                 \<and> snd (verify_decode w api req hdr t0 t1)
                     = snd (verify_mismatch w api req p t0 t1)))))"
  using assms
  by (cases hdr) (auto simp: verify_decode_def split: sum.splits if_splits)

lemma verify_decode_parsed:
  assumes "base64Decode w h = Inr jtext" and "jsonParse w jtext = Inr p" and "\<not> nullish p"
  shows "verify_decode w api req (JStr h) t0 t1
     = after [Base64Decode h, JsonParse jtext] (verify_mismatch w api req p t0 t1)"
  using assms by (simp add: verify_decode_def after_def)

lemma verify_try_calls:
  assumes "c \<in> set (fst (verify_try w request t0 t1))"
  shows "\<exists>body. request = Inr body \<and> passes_gates w body \<and>
     (c = UseApi (field (field body ''paymentRequirements'') ''network'')
      \<or> (\<exists>api. useApi w (field (field body ''paymentRequirements'') ''network'') = Inr api
           \<and> c \<in> set (fst (verify_decode w api (field body ''paymentRequirements'')
                               (field body ''paymentHeader'') t0 t1))
           \<and> verify_try w request t0 t1
               = after [UseApi (field (field body ''paymentRequirements'') ''network'')]
                   (verify_decode w api (field body ''paymentRequirements'')
                      (field body ''paymentHeader'') t0 t1)))"
  using assms
  by (cases request)
     (auto simp: verify_try_def passes_gates_def js_or_def Let_def verify_reject_tpl_def
           split: sum.splits if_splits)

lemma fst_POST_verify [simp]:
  "fst (POST_verify w request t0 t1) = fst (verify_try w request t0 t1)"
  by (simp add: POST_verify_def split: prod.splits outcome.splits)

lemma snd_POST_verify:
  "snd (POST_verify w request t0 t1) =
     (case snd (verify_try w request t0 t1) of
        Return r \<Rightarrow> r
      | Throw e \<Rightarrow> json_status \<lparr>isValid = False, invalidReason = Some (message_or_string e)\<rparr> 500)"
  by (simp add: POST_verify_def split: prod.splits outcome.splits)

subsection \<open>The settle route\<close>

lemma settle_delegate_calls:
  "fst (settle_delegate w api net p t0 t1) = [SettleWithApi api p False]"
  by (simp add: settle_delegate_def split: sum.splits)

lemma settle_presence_calls:
  assumes "c \<in> set (fst (settle_presence w api net p t0 t1))"
  shows "c = SettleWithApi api p False
     \<and> settle_presence w api net p t0 t1 = settle_delegate w api net p t0 t1"
  using assms
  by (auto simp: settle_presence_def settle_delegate_calls js_or_def Let_def split: if_splits)

lemma settle_mismatch_calls:
  assumes "c \<in> set (fst (settle_mismatch w api req p t0 t1))"
  shows "c = SettleWithApi api p False
     \<and> settle_mismatch w api req p t0 t1
         = settle_delegate w api (field req ''network'') p t0 t1"
  using assms
  by (auto simp: settle_mismatch_def split: if_splits dest!: settle_presence_calls)

lemma settle_decode_calls:
  assumes "c \<in> set (fst (settle_decode w api req hdr t0 t1))"
  shows "\<exists>h. hdr = JStr h \<and>
     (c = Base64Decode h
      \<or> (\<exists>jtext. base64Decode w h = Inr jtext \<and>
           (c = JsonParse jtext
            \<or> (\<exists>p. jsonParse w jtext = Inr p \<and> \<not> nullish p
                 \<and> c \<in> set (fst (settle_mismatch w api req p t0 t1))
                 \<and> settle_decode w api req hdr t0 t1
                     = after [Base64Decode h, JsonParse jtext]
                         (settle_mismatch w api req p t0 t1)))))"
  using assms
  by (cases hdr) (auto simp: settle_decode_def after_def split: sum.splits if_splits)

lemma settle_decode_parsed:
  assumes "base64Decode w h = Inr jtext" and "jsonParse w jtext = Inr p" and "\<not> nullish p"
  shows "settle_decode w api req (JStr h) t0 t1
     = after [Base64Decode h, JsonParse jtext] (settle_mismatch w api req p t0 t1)"
  using assms by (simp add: settle_decode_def after_def)

lemma settle_try_calls:
  assumes "c \<in> set (fst (settle_try w request t0 t1))"
  shows "\<exists>body. request = Inr body \<and> passes_gates w body \<and>
     (c = UseApi (field (field body ''paymentRequirements'') ''network'')
      \<or> (\<exists>api. useApi w (field (field body ''paymentRequirements'') ''network'') = Inr api
           \<and> c \<in> set (fst (settle_decode w api (field body ''paymentRequirements'')
                               (field body ''paymentHeader'') t0 t1))
           \<and> settle_try w request t0 t1
               = after [UseApi (field (field body ''paymentRequirements'') ''network'')]
                   (settle_decode w api (field body ''paymentRequirements'')
                      (field body ''paymentHeader'') t0 t1)))"
  using assms
  by (cases request)
     (auto simp: settle_try_def passes_gates_def js_or_def Let_def settle_reject_tpl_def
           split: sum.splits if_splits)

lemma fst_POST_settle [simp]:
  "fst (POST_settle w request t0 t1) = fst (settle_try w request t0 t1)"
  by (simp add: POST_settle_def split: prod.splits outcome.splits)

lemma snd_POST_settle:
  "snd (POST_settle w request t0 t1) =
     (case snd (settle_try w request t0 t1) of
        Return r \<Rightarrow> r
      | Throw e \<Rightarrow>
          if is_duplicate (err_message e)
          then json_status \<lparr>success = False, error = Some ''Transaction already used'',
                            txHash = None, networkId = JNull\<rparr> 409
          else json_status \<lparr>success = False, error = Some (message_or_string e),
                            txHash = None, networkId = JNull\<rparr> 500)"
  by (simp add: POST_settle_def split: prod.splits outcome.splits)

text \<open>The settle delegate is reached: the run is the delegate's, after three calls.\<close>

lemma settle_reaches_delegate:
  assumes "SettleWithApi api p opt \<in> set (fst (settle_try w request t0 t1))"
  shows "\<exists>body. request = Inr body \<and> passes_gates w body \<and> opt = False
     \<and> snd (settle_try w request t0 t1)
         = snd (settle_delegate w api (field (field body ''paymentRequirements'') ''network'')
                  p t0 t1)"
proof -
  from settle_try_calls [OF assms] obtain body api' where
    body: "request = Inr body" "passes_gates w body"
    and dec: "SettleWithApi api p opt
        \<in> set (fst (settle_decode w api' (field body ''paymentRequirements'')
                      (field body ''paymentHeader'') t0 t1))"
    and run: "settle_try w request t0 t1
        = after [UseApi (field (field body ''paymentRequirements'') ''network'')]
            (settle_decode w api' (field body ''paymentRequirements'')
               (field body ''paymentHeader'') t0 t1)"
    by auto
  from settle_decode_calls [OF dec] obtain h jtext q where
    mis: "SettleWithApi api p opt
        \<in> set (fst (settle_mismatch w api' (field body ''paymentRequirements'') q t0 t1))"
    and run2: "settle_decode w api' (field body ''paymentRequirements'')
          (field body ''paymentHeader'') t0 t1
        = after [Base64Decode h, JsonParse jtext]
            (settle_mismatch w api' (field body ''paymentRequirements'') q t0 t1)"
    by auto
  from settle_mismatch_calls [OF mis] have
    same: "api = api'" "p = q" "opt = False"
    and run3: "settle_mismatch w api' (field body ''paymentRequirements'') q t0 t1
        = settle_delegate w api' (field (field body ''paymentRequirements'') ''network'') q t0 t1"
    by auto
  from run run2 run3 same body show ?thesis
    by simp
qed

text \<open>The verify delegate is reached: the outcome is the delegate's.\<close>

lemma verify_reaches_delegate:
  assumes "VerifyWithApi api p \<in> set (fst (verify_try w request t0 t1))"
  shows "snd (verify_try w request t0 t1) = snd (verify_delegate w api p t0 t1)"
proof -
  from verify_try_calls [OF assms] obtain body api' where
    dec: "VerifyWithApi api p
        \<in> set (fst (verify_decode w api' (field body ''paymentRequirements'')
                      (field body ''paymentHeader'') t0 t1))"
    and run: "verify_try w request t0 t1
        = after [UseApi (field (field body ''paymentRequirements'') ''network'')]
            (verify_decode w api' (field body ''paymentRequirements'')
               (field body ''paymentHeader'') t0 t1)"
    by auto
  from verify_decode_calls [OF dec] obtain q where
    mis: "VerifyWithApi api p
        \<in> set (fst (verify_mismatch w api' (field body ''paymentRequirements'') q t0 t1))"
    and run2: "snd (verify_decode w api' (field body ''paymentRequirements'')
          (field body ''paymentHeader'') t0 t1)
        = snd (verify_mismatch w api' (field body ''paymentRequirements'') q t0 t1)"
    by auto
  from verify_mismatch_calls [OF mis] have
    run3: "verify_mismatch w api' (field body ''paymentRequirements'') q t0 t1
        = verify_balance w api' (field body ''paymentRequirements'') q t0 t1"
    by simp
  with mis verify_balance_calls
    [of "VerifyWithApi api p" w api' "field body ''paymentRequirements''" q t0 t1]
  have "api = api'" "p = q"
    and run4: "snd (verify_balance w api' (field body ''paymentRequirements'') q t0 t1)
        = snd (verify_delegate w api' q t0 t1)"
    by auto
  with run run2 run3 show ?thesis
    by simp
qed


section \<open>The success responses\<close>

lemma verify_delegate_headers:
  assumes "snd (verify_delegate w api p t0 t1) = Return r"
  shows "headers r
     = (if isValid (json_body r) then [(''X-Verification-Time'', show_int (t1 - t0))] else [])"
  using assms
  by (auto simp: verify_delegate_def json_def split: sum.splits if_splits)

lemma verify_reject_tpl_headers:
  assumes "verify_reject_tpl w ps = Return r"
  shows "headers r = [] \<and> \<not> isValid (json_body r)"
  using assms
  by (auto simp: verify_reject_tpl_def verify_reject_def json_def split: sum.splits)

lemma verify_presence_headers:
  assumes "snd (verify_presence w api p t0 t1) = Return r"
  shows "headers r
     = (if isValid (json_body r) then [(''X-Verification-Time'', show_int (t1 - t0))] else [])"
  using assms
  by (auto simp: verify_presence_def verify_reject_def json_def Let_def
      split: if_splits dest: verify_delegate_headers)

lemma verify_balance_headers:
  assumes "snd (verify_balance w api req p t0 t1) = Return r"
  shows "headers r
     = (if isValid (json_body r) then [(''X-Verification-Time'', show_int (t1 - t0))] else [])"
  using assms
  by (auto simp: verify_balance_def verify_reject_def json_def Let_def
      split: sum.splits if_splits dest: verify_presence_headers)

lemma verify_mismatch_headers:
  assumes "snd (verify_mismatch w api req p t0 t1) = Return r"
  shows "headers r
     = (if isValid (json_body r) then [(''X-Verification-Time'', show_int (t1 - t0))] else [])"
  using assms
  by (auto simp: verify_mismatch_def
      split: if_splits dest: verify_balance_headers verify_reject_tpl_headers)

lemma verify_decode_headers:
  assumes "snd (verify_decode w api req hdr t0 t1) = Return r"
  shows "headers r
     = (if isValid (json_body r) then [(''X-Verification-Time'', show_int (t1 - t0))] else [])"
  using assms
  by (auto simp: verify_decode_def verify_reject_def json_def
      split: option.splits sum.splits if_splits dest: verify_mismatch_headers)

lemma verify_try_headers:
  assumes "snd (verify_try w request t0 t1) = Return r"
  shows "headers r
     = (if isValid (json_body r) then [(''X-Verification-Time'', show_int (t1 - t0))] else [])"
  using assms
  by (auto simp: verify_try_def json_status_def Let_def
      split: sum.splits if_splits dest: verify_decode_headers verify_reject_tpl_headers)

lemma POST_verify_headers:
  "headers (snd (POST_verify w request t0 t1))
     = (if isValid (json_body (snd (POST_verify w request t0 t1)))
        then [(''X-Verification-Time'', show_int (t1 - t0))] else [])"
proof (cases "snd (verify_try w request t0 t1)")
  case (Return r)
  with verify_try_headers [OF Return] show ?thesis
    by (simp add: snd_POST_verify)
next
  case (Throw e)
  then show ?thesis
    by (simp add: snd_POST_verify json_status_def)
qed


lemma settle_ok_after:
  "settle_ok w net t0 t1 calls r \<Longrightarrow> settle_ok w net t0 t1 (cs @ calls) r"
  by (auto simp: settle_ok_def split: if_splits)

lemma settle_ok_Cons:
  "settle_ok w net t0 t1 calls r \<Longrightarrow> settle_ok w net t0 t1 (c # calls) r"
  using settle_ok_after [of w net t0 t1 calls r "[c]"] by simp

lemma settle_ok_failure:
  "settle_ok w net t0 t1 calls
     (json_status \<lparr>success = False, error = m, txHash = None, networkId = JNull\<rparr> st)"
  by (simp add: settle_ok_def json_status_def)

lemma settle_reject_ok: "settle_ok w net t0 t1 calls (settle_reject m)"
  by (simp add: settle_ok_def settle_reject_def json_def)

lemma settle_reject_tpl_ok:
  "settle_reject_tpl w ps = Return r \<Longrightarrow> settle_ok w net t0 t1 calls r"
  by (auto simp: settle_reject_tpl_def settle_reject_ok split: sum.splits)

lemma settle_delegate_ok:
  assumes "snd (settle_delegate w api net p t0 t1) = Return r"
  shows "settle_ok w net t0 t1 (fst (settle_delegate w api net p t0 t1)) r"
  using assms
  by (auto simp: settle_delegate_def settle_reject_def settle_ok_def json_def
      split: sum.splits if_splits)

lemma settle_presence_ok:
  assumes "snd (settle_presence w api net p t0 t1) = Return r"
  shows "settle_ok w net t0 t1 (fst (settle_presence w api net p t0 t1)) r"
  using assms
  by (auto simp: settle_presence_def settle_reject_ok Let_def
      split: if_splits intro: settle_delegate_ok)

lemma settle_mismatch_ok:
  assumes "snd (settle_mismatch w api req p t0 t1) = Return r"
  shows "settle_ok w (field req ''network'') t0 t1 (fst (settle_mismatch w api req p t0 t1)) r"
  using assms
  by (auto simp: settle_mismatch_def
      split: if_splits intro: settle_presence_ok settle_reject_tpl_ok)

lemma settle_decode_ok:
  assumes "snd (settle_decode w api req hdr t0 t1) = Return r"
  shows "settle_ok w (field req ''network'') t0 t1 (fst (settle_decode w api req hdr t0 t1)) r"
  using assms
  by (auto simp: settle_decode_def settle_reject_ok
      split: option.splits sum.splits if_splits
      dest: settle_mismatch_ok intro: settle_reject_tpl_ok intro!: settle_ok_Cons)

lemma settle_try_ok:
  assumes "snd (settle_try w (Inr body) t0 t1) = Return r"
  shows "settle_ok w (field (field body ''paymentRequirements'') ''network'') t0 t1
           (fst (settle_try w (Inr body) t0 t1)) r"
  using assms
  by (auto simp: settle_try_def settle_ok_failure Let_def
      split: sum.splits if_splits
      dest: settle_decode_ok intro: settle_reject_tpl_ok intro!: settle_ok_Cons)

lemma POST_settle_ok:
  "settle_ok w (field (field body ''paymentRequirements'') ''network'') t0 t1
     (fst (POST_settle w (Inr body) t0 t1)) (snd (POST_settle w (Inr body) t0 t1))"
proof (cases "snd (settle_try w (Inr body) t0 t1)")
  case (Return r)
  with settle_try_ok [OF Return] show ?thesis
    by (simp add: snd_POST_settle)
next
  case (Throw e)
  then show ?thesis
    by (simp add: snd_POST_settle settle_ok_failure)
qed

lemma POST_settle_unparsed:
  "snd (POST_settle w (Inl e) t0 t1)
     = json_status \<lparr>success = False,
         error = Some (if is_duplicate (err_message e) then ''Transaction already used''
                       else message_or_string e),
         txHash = None, networkId = JNull\<rparr> (if is_duplicate (err_message e) then 409 else 500)"
  by (simp add: POST_settle_def settle_try_def)


text \<open>
  C8. When the verify route gets as far as the delegated verification and that call
  returns \<^verbatim>\<open>isValid: true\<close>, the response is HTTP 200
  \<^verbatim>\<open>{isValid: true, invalidReason: null}\<close> with the header \<^verbatim>\<open>X-Verification-Time\<close>
  holding the elapsed milliseconds. In both routes, for every request, the elapsed-time
  header is on the response exactly when the body reports success: no rejection and no
  error response carries it.
\<close>

theorem C8_time_header_only_on_success:
  "(VerifyWithApi api p \<in> set (fst (POST_verify w request t0 t1))
      \<and> verifyWithApi w api p = Inr res \<and> isValid res
     \<longrightarrow> snd (POST_verify w request t0 t1)
          = \<lparr>status = 200, json_body = \<lparr>isValid = True, invalidReason = None\<rparr>,
             headers = [(''X-Verification-Time'', show_int (t1 - t0))]\<rparr>)
   \<and> headers (snd (POST_verify w request t0 t1))
       = (if isValid (json_body (snd (POST_verify w request t0 t1)))
          then [(''X-Verification-Time'', show_int (t1 - t0))] else [])
   \<and> headers (snd (POST_settle w request t0 t1))
       = (if success (json_body (snd (POST_settle w request t0 t1)))
          then [(''X-Settlement-Time'', show_int (t1 - t0))] else [])"
proof (intro conjI impI)
  assume "VerifyWithApi api p \<in> set (fst (POST_verify w request t0 t1))
      \<and> verifyWithApi w api p = Inr res \<and> isValid res"
  then have reached: "VerifyWithApi api p \<in> set (fst (verify_try w request t0 t1))"
    and res: "verifyWithApi w api p = Inr res" "isValid res"
    by simp_all
  from verify_reaches_delegate [OF reached] res
  show "snd (POST_verify w request t0 t1)
      = \<lparr>status = 200, json_body = \<lparr>isValid = True, invalidReason = None\<rparr>,
         headers = [(''X-Verification-Time'', show_int (t1 - t0))]\<rparr>"
    by (simp add: snd_POST_verify verify_delegate_def json_def)
next
  show "headers (snd (POST_verify w request t0 t1))
      = (if isValid (json_body (snd (POST_verify w request t0 t1)))
         then [(''X-Verification-Time'', show_int (t1 - t0))] else [])"
    by (rule POST_verify_headers)
next
  show "headers (snd (POST_settle w request t0 t1))
      = (if success (json_body (snd (POST_settle w request t0 t1)))
         then [(''X-Settlement-Time'', show_int (t1 - t0))] else [])"
  proof (cases request)
    case (Inl e)
    then show ?thesis
      by (simp add: POST_settle_unparsed json_status_def)
  next
    case (Inr body)
    with POST_settle_ok [of w body t0 t1] show ?thesis
      by (simp add: settle_ok_def)
  qed
qed

theorem C8_time_header_only_on_success_witness:
  "VerifyWithApi () sample_payload \<in> set (fst (POST_verify funded_runtime (Inr sample_request) 100 142))
   \<and> verifyWithApi funded_runtime () sample_payload = Inr \<lparr>isValid = True, invalidReason = None\<rparr>
   \<and> snd (POST_verify funded_runtime (Inr sample_request) 100 142)
       = \<lparr>status = 200, json_body = \<lparr>isValid = True, invalidReason = None\<rparr>,
          headers = [(''X-Verification-Time'', ''42'')]\<rparr>
   \<and> headers (snd (POST_verify underfunded_runtime (Inr sample_request) 100 142)) = []"
proof -
  have reached: "VerifyWithApi () sample_payload
      \<in> set (fst (POST_verify funded_runtime (Inr sample_request) 100 142))"
    by (simp add: verify_defs sample_defs js_defs)
  have res: "verifyWithApi funded_runtime () sample_payload
      = Inr \<lparr>isValid = True, invalidReason = None\<rparr>"
    by (simp add: sample_defs)
  have elapsed: "show_int (142 - 100) = ''42''"
    by (simp add: js_defs)
  have rejected: "\<not> isValid (json_body (snd (POST_verify underfunded_runtime (Inr sample_request) 100 142)))"
    by (simp add: verify_defs sample_defs js_defs)
  from reached res elapsed rejected
    C8_time_header_only_on_success
      [of "()" sample_payload funded_runtime "Inr sample_request" 100 142
          "\<lparr>isValid = True, invalidReason = None\<rparr>"]
    C8_time_header_only_on_success
      [of "()" sample_payload underfunded_runtime "Inr sample_request" 100 142
          "\<lparr>isValid = True, invalidReason = None\<rparr>"]
  show ?thesis
    by simp
qed

section \<open>The settle responses\<close>

text \<open>
  C10. When the settle route reports success, \<^verbatim>\<open>networkId\<close> is the
  \<^verbatim>\<open>paymentRequirements.network\<close> of the request (a member of the valid networks),
  \<^verbatim>\<open>error\<close> is null and \<^verbatim>\<open>txHash\<close> is the one returned by the delegated settlement,
  which is the last call made. When it reports failure, whatever the failure,
  \<^verbatim>\<open>txHash\<close> and \<^verbatim>\<open>networkId\<close> are both null.
\<close>

theorem C10_settle_response_fields:
  "(success (json_body (snd (POST_settle w request t0 t1))) \<longrightarrow>
      (\<exists>body api p res. request = Inr body
         \<and> networkId (json_body (snd (POST_settle w request t0 t1)))
             = field (field body ''paymentRequirements'') ''network''
         \<and> includes_network (validVaraNetworks w)
             (field (field body ''paymentRequirements'') ''network'')
         \<and> error (json_body (snd (POST_settle w request t0 t1))) = None
         \<and> last (fst (POST_settle w request t0 t1)) = SettleWithApi api p False
         \<and> settleWithApi w api p False = Inr res
         \<and> txHash (json_body (snd (POST_settle w request t0 t1))) = r_txHash res))
   \<and> (\<not> success (json_body (snd (POST_settle w request t0 t1))) \<longrightarrow>
        txHash (json_body (snd (POST_settle w request t0 t1))) = None
        \<and> networkId (json_body (snd (POST_settle w request t0 t1))) = JNull)"
proof (cases request)
  case (Inl e)
  then show ?thesis
    by (simp add: POST_settle_unparsed json_status_def)
next
  case (Inr body)
  let ?r = "snd (POST_settle w request t0 t1)"
  let ?calls = "fst (POST_settle w request t0 t1)"
  from Inr POST_settle_ok [of w body t0 t1]
  have ok: "settle_ok w (field (field body ''paymentRequirements'') ''network'') t0 t1 ?calls ?r"
    by simp
  from ok have failure: "\<not> success (json_body ?r) \<longrightarrow>
      txHash (json_body ?r) = None \<and> networkId (json_body ?r) = JNull"
    by (simp add: settle_ok_def)
  have "\<exists>body api p res. request = Inr body
       \<and> networkId (json_body ?r) = field (field body ''paymentRequirements'') ''network''
       \<and> includes_network (validVaraNetworks w)
           (field (field body ''paymentRequirements'') ''network'')
       \<and> error (json_body ?r) = None
       \<and> last ?calls = SettleWithApi api p False
       \<and> settleWithApi w api p False = Inr res
       \<and> txHash (json_body ?r) = r_txHash res"
    if "success (json_body ?r)"
  proof -
    from that ok obtain api p res where
      fields: "networkId (json_body ?r) = field (field body ''paymentRequirements'') ''network''"
        "error (json_body ?r) = None"
      and calls: "?calls \<noteq> []" "last ?calls = SettleWithApi api p False"
      and res: "settleWithApi w api p False = Inr res" "txHash (json_body ?r) = r_txHash res"
      by (auto simp: settle_ok_def)
    from calls(1) have "last ?calls \<in> set ?calls"
      by (rule last_in_set)
    then have "last ?calls \<in> set (fst (settle_try w request t0 t1))"
      by simp
    from settle_try_calls [OF this] Inr have "passes_gates w body"
      by auto
    then have "includes_network (validVaraNetworks w)
        (field (field body ''paymentRequirements'') ''network'')"
      by (simp add: passes_gates_def)
    with Inr fields calls res show ?thesis
      by blast
  qed
  with failure show ?thesis
    by blast
qed

theorem C10_settle_response_fields_witness:
  "success (json_body (snd (POST_settle funded_runtime (Inr sample_request) 100 142)))
   \<and> networkId (json_body (snd (POST_settle funded_runtime (Inr sample_request) 100 142)))
       = JStr ''vara-testnet''
   \<and> txHash (json_body (snd (POST_settle funded_runtime (Inr sample_request) 100 142)))
       = Some ''0xfeed''
   \<and> \<not> success (json_body (snd (POST_settle refusing_runtime (Inr sample_request) 100 142)))
   \<and> txHash (json_body (snd (POST_settle refusing_runtime (Inr sample_request) 100 142))) = None
   \<and> networkId (json_body (snd (POST_settle refusing_runtime (Inr sample_request) 100 142)))
       = JNull"
proof -
  have ok: "success (json_body (snd (POST_settle funded_runtime (Inr sample_request) 100 142)))"
    by (simp add: settle_defs sample_defs js_defs)
  have net: "field (field sample_request ''paymentRequirements'') ''network''
      = (JStr ''vara-testnet'' :: int jsval)"
    by (simp add: sample_defs)
  have hash: "settleWithApi funded_runtime api p False
      = Inr \<lparr>r_success = True, r_txHash = Some ''0xfeed'', r_message = None\<rparr>" for api p
    by (simp add: sample_defs)
  have refused:
    "\<not> success (json_body (snd (POST_settle refusing_runtime (Inr sample_request) 100 142)))"
    by (simp add: settle_defs sample_defs js_defs)
  from ok net hash refused
    C10_settle_response_fields [of funded_runtime "Inr sample_request" 100 142]
    C10_settle_response_fields [of refusing_runtime "Inr sample_request" 100 142]
  show ?thesis
    by auto
qed

text \<open>
  C2, as amended. The settle route answers HTTP 409 with
  \<^verbatim>\<open>{success: false, error: "Transaction already used", txHash: null, networkId: null}\<close>
  when the delegated settlement call throws an error whose message contains
  \<^verbatim>\<open>SEQUENCE_NUMBER_TOO_OLD\<close>, \<^verbatim>\<open>INVALID_SEQ_NUMBER\<close> or \<^verbatim>\<open>already submitted\<close>. When
  the call instead returns \<^verbatim>\<open>success: false\<close> with a message, the route answers HTTP 200
  with that message unchanged, whatever it contains.
\<close>

theorem C2_thrown_duplicate_is_409:
  assumes "SettleWithApi api p opt \<in> set (fst (POST_settle w request t0 t1))"
  shows "(settleWithApi w api p opt = Inl e
          \<and> (str_includes (err_message e) ''SEQUENCE_NUMBER_TOO_OLD''
              \<or> str_includes (err_message e) ''INVALID_SEQ_NUMBER''
              \<or> str_includes (err_message e) ''already submitted'')
        \<longrightarrow> snd (POST_settle w request t0 t1)
             = \<lparr>status = 409,
                json_body = \<lparr>success = False, error = Some ''Transaction already used'',
                             txHash = None, networkId = JNull\<rparr>,
                headers = []\<rparr>)
     \<and> (settleWithApi w api p opt = Inr res \<and> \<not> r_success res
        \<longrightarrow> snd (POST_settle w request t0 t1)
             = \<lparr>status = 200,
                json_body = \<lparr>success = False, error = r_message res,
                             txHash = None, networkId = JNull\<rparr>,
                headers = []\<rparr>)"
proof -
  from assms have "SettleWithApi api p opt \<in> set (fst (settle_try w request t0 t1))"
    by simp
  from settle_reaches_delegate [OF this] obtain body where
    opt: "opt = False"
    and run: "snd (settle_try w request t0 t1)
        = snd (settle_delegate w api (field (field body ''paymentRequirements'') ''network'')
                 p t0 t1)"
    by auto
  show ?thesis
  proof (intro conjI impI)
    assume "settleWithApi w api p opt = Inl e
        \<and> (str_includes (err_message e) ''SEQUENCE_NUMBER_TOO_OLD''
            \<or> str_includes (err_message e) ''INVALID_SEQ_NUMBER''
            \<or> str_includes (err_message e) ''already submitted'')"
    then have "settleWithApi w api p False = Inl e" and "is_duplicate (err_message e)"
      using opt by (auto simp: is_duplicate_def js_or_def)
    with run show "snd (POST_settle w request t0 t1)
        = \<lparr>status = 409,
           json_body = \<lparr>success = False, error = Some ''Transaction already used'',
                        txHash = None, networkId = JNull\<rparr>,
           headers = []\<rparr>"
      by (simp add: snd_POST_settle settle_delegate_def json_status_def)
  next
    assume "settleWithApi w api p opt = Inr res \<and> \<not> r_success res"
    with run opt show "snd (POST_settle w request t0 t1)
        = \<lparr>status = 200,
           json_body = \<lparr>success = False, error = r_message res,
                        txHash = None, networkId = JNull\<rparr>,
           headers = []\<rparr>"
      by (simp add: snd_POST_settle settle_delegate_def settle_reject_def json_def)
  qed
qed

theorem C2_thrown_duplicate_is_409_witness:
  "SettleWithApi () sample_payload False
     \<in> set (fst (POST_settle throwing_runtime (Inr sample_request) 100 142))
   \<and> settleWithApi throwing_runtime () sample_payload False
       = Inl (JsError ''Error'' ''1014: Priority is too low: already submitted'')
   \<and> str_includes ''1014: Priority is too low: already submitted'' ''already submitted''
   \<and> snd (POST_settle throwing_runtime (Inr sample_request) 100 142)
       = \<lparr>status = 409,
          json_body = \<lparr>success = False, error = Some ''Transaction already used'',
                       txHash = None, networkId = JNull\<rparr>,
          headers = []\<rparr>"
proof -
  have reached: "SettleWithApi () sample_payload False
      \<in> set (fst (POST_settle throwing_runtime (Inr sample_request) 100 142))"
    by (simp add: settle_defs sample_defs js_defs)
  have thrown: "settleWithApi throwing_runtime () sample_payload False
      = Inl (JsError ''Error'' ''1014: Priority is too low: already submitted'')"
    by (simp add: sample_defs)
  have marker: "str_includes ''1014: Priority is too low: already submitted'' ''already submitted''"
    by simp
  from thrown marker
    C2_thrown_duplicate_is_409 [OF reached,
      of "JsError ''Error'' ''1014: Priority is too low: already submitted''"]
  have "snd (POST_settle throwing_runtime (Inr sample_request) 100 142)
       = \<lparr>status = 409,
          json_body = \<lparr>success = False, error = Some ''Transaction already used'',
                       txHash = None, networkId = JNull\<rparr>,
          headers = []\<rparr>"
    by simp
  with reached thrown marker show ?thesis
    by simp
qed

text \<open>
  C2, as the claim states it, fails: the delegated settlement reports
  \<^verbatim>\<open>{success: false, message: "INVALID_SEQ_NUMBER"}\<close> and the route answers HTTP 200
  with that message (lines 425-435), not HTTP 409 with \<^verbatim>\<open>"Transaction already used"\<close>.
\<close>

theorem C2_returned_duplicate_is_not_masked:
  "settleWithApi refusing_runtime () sample_payload False
     = Inr \<lparr>r_success = False, r_txHash = None, r_message = Some ''INVALID_SEQ_NUMBER''\<rparr>
   \<and> str_includes ''INVALID_SEQ_NUMBER'' ''INVALID_SEQ_NUMBER''
   \<and> POST_settle refusing_runtime (Inr sample_request) 100 142
       = ([UseApi (JStr ''vara-testnet''), Base64Decode ''eyJ4NDAyVmVyc2lvbiI6MX0='',
           JsonParse ''decoded header'', SettleWithApi () sample_payload False],
          \<lparr>status = 200,
           json_body = \<lparr>success = False, error = Some ''INVALID_SEQ_NUMBER'',
                        txHash = None, networkId = JNull\<rparr>,
           headers = []\<rparr>)"
  by (simp add: settle_defs sample_defs js_defs)


section \<open>Decimal rendering and reading of integers\<close>

lemma below_ten: "d < 10 \<Longrightarrow> d \<in> set [0, 1, 2, 3, 4, 5, 6, 7, 8, 9::nat]"
  by simp arith

lemma digit_val_digit_char: "d < 10 \<Longrightarrow> digit_val 10 (digit_char d) = Some d"
  by (drule below_ten) (auto simp: digit_val_def digit_char_def)

lemma digit_char_plain:
  "d < 10 \<Longrightarrow> \<not> is_ws (digit_char d)
     \<and> digit_char d \<notin> {CHR ''+'', CHR ''-'', CHR ''x'', CHR ''X'', CHR ''o'', CHR ''O'',
                          CHR ''b'', CHR ''B''}"
  by (drule below_ten) (auto simp: is_ws_def digit_char_def)

lemma digits_acc_append:
  "digits_acc b acc (xs @ ys)
     = (case digits_acc b acc xs of None \<Rightarrow> None | Some a \<Rightarrow> digits_acc b a ys)"
  by (induction xs arbitrary: acc) (auto split: option.splits)

lemma digits_acc_showNat: "digits_acc 10 0 (showNat n) = Some n"
proof (induction n rule: showNat.induct)
  case (1 n)
  show ?case
  proof (cases "n < 10")
    case True
    then have "showNat n = [digit_char n]"
      by (subst showNat.simps) simp
    with True show ?thesis
      by (simp add: digit_val_digit_char)
  next
    case False
    then have eq: "showNat n = showNat (n div 10) @ [digit_char (n mod 10)]"
      by (subst showNat.simps) simp
    from False 1 have "digits_acc 10 0 (showNat (n div 10)) = Some (n div 10)"
      by simp
    then show ?thesis
      by (simp add: eq digits_acc_append digit_val_digit_char)
  qed
qed

lemma showNat_plain:
  "showNat n \<noteq> [] \<and> list_all (\<lambda>c. \<exists>d < 10. c = digit_char d) (showNat n)"
proof (induction n rule: showNat.induct)
  case (1 n)
  show ?case
  proof (cases "n < 10")
    case True
    then have "showNat n = [digit_char n]"
      by (subst showNat.simps) simp
    with True show ?thesis
      by auto
  next
    case False
    then have eq: "showNat n = showNat (n div 10) @ [digit_char (n mod 10)]"
      by (subst showNat.simps) simp
    have "n mod 10 < 10"
      by simp
    then have "\<exists>d < 10. digit_char (n mod 10) = digit_char d"
      by blast
    with False 1 show ?thesis
      by (simp add: eq)
  qed
qed

lemma trim_plain:
  assumes "xs \<noteq> []" and "\<not> is_ws (hd xs)" and "\<not> is_ws (last xs)"
  shows "trim xs = xs"
proof -
  from assms have a: "dropWhile is_ws xs = xs"
    by (cases xs) auto
  from assms have "rev xs \<noteq> []" and "\<not> is_ws (hd (rev xs))"
    by (simp_all add: hd_rev)
  then have "dropWhile is_ws (rev xs) = rev xs"
    by (cases "rev xs") auto
  with a show ?thesis
    by (simp add: trim_def)
qed

lemma showNat_ends:
  "\<exists>d < 10. hd (showNat n) = digit_char d" "\<exists>d < 10. last (showNat n) = digit_char d"
proof -
  from showNat_plain [of n] have ne: "showNat n \<noteq> []"
    and all: "\<forall>c \<in> set (showNat n). \<exists>d < 10. c = digit_char d"
    by (simp_all add: list_all_iff)
  from ne have "hd (showNat n) \<in> set (showNat n)" "last (showNat n) \<in> set (showNat n)"
    by simp_all
  with all show "\<exists>d < 10. hd (showNat n) = digit_char d"
    "\<exists>d < 10. last (showNat n) = digit_char d"
    by blast+
qed

lemma stringToBigInt_showNat: "stringToBigInt (showNat n) = Some (int n)"
proof -
  from showNat_plain [of n] have ne: "showNat n \<noteq> []"
    by simp
  obtain d where d: "d < 10" "hd (showNat n) = digit_char d"
    using showNat_ends(1) by blast
  obtain e where e: "e < 10" "last (showNat n) = digit_char e"
    using showNat_ends(2) by blast
  from ne d e have t: "trim (showNat n) = showNat n"
    by (intro trim_plain) (simp_all add: digit_char_plain)
  have second: "length (showNat n) \<ge> 2 \<Longrightarrow>
      showNat n ! 1 \<notin> {CHR ''x'', CHR ''X'', CHR ''o'', CHR ''O'', CHR ''b'', CHR ''B''}"
  proof -
    assume "length (showNat n) \<ge> 2"
    then have "showNat n ! 1 \<in> set (showNat n)"
      by (intro nth_mem) simp
    with showNat_plain [of n] obtain k where "k < 10" "showNat n ! 1 = digit_char k"
      by (auto simp: list_all_iff)
    then show ?thesis
      using digit_char_plain [of k] by simp
  qed
  from d have sign: "hd (showNat n) \<noteq> CHR ''+''" "hd (showNat n) \<noteq> CHR ''-''"
    using digit_char_plain [of d] by simp_all
  from ne second sign show ?thesis
    by (simp add: stringToBigInt_def Let_def t digits_def digits_acc_showNat)
qed

text \<open>Reading the rendered digits gives the integer back: the rendering loses nothing.\<close>

lemma stringToBigInt_show_int: "stringToBigInt (show_int i) = Some i"
proof (cases "i < 0")
  case False
  then show ?thesis
    by (simp add: show_int_def stringToBigInt_showNat)
next
  case True
  let ?s = "CHR ''-'' # showNat (nat (- i))"
  from showNat_plain [of "nat (- i)"] have ne: "showNat (nat (- i)) \<noteq> []"
    by simp
  obtain e where e: "e < 10" "last (showNat (nat (- i))) = digit_char e"
    using showNat_ends(2) by blast
  have "\<not> is_ws (CHR ''-'')"
    by (simp add: is_ws_def)
  with ne e have t: "trim ?s = ?s"
    by (intro trim_plain) (simp_all add: digit_char_plain)
  from True ne show ?thesis
    by (simp add: show_int_def stringToBigInt_def Let_def t digits_def digits_acc_showNat)
qed


section \<open>The balance gate\<close>

text \<open>
  C7. When the verify route gets as far as the balance query, the required amount is
  \<^verbatim>\<open>BigInt(maxAmountRequired)\<close>, an integer of any size, and it is compared with the
  queried balance as integers; when the balance is smaller the response is HTTP 200
  \<^verbatim>\<open>{isValid: false, invalidReason: "Insufficient asset balance: expected {amount}, got {balance}"}\<close>
  with both numbers as decimal digits. The digits are exact (reading them back gives
  the same integers), and a decimal string of any length is converted to exactly the
  integer it denotes.
\<close>

theorem C7_insufficient_balance_exact:
  assumes "BalanceOf api a s \<in> set (fst (POST_verify w (Inr body) t0 t1))"
    and "toBigInt w (field (field body ''paymentRequirements'') ''maxAmountRequired'') = Inr amount"
    and "balanceOf w api a s = Inr balance"
    and "balance < amount"
  shows "snd (POST_verify w (Inr body) t0 t1)
       = \<lparr>status = 200,
          json_body = \<lparr>isValid = False,
             invalidReason = Some (''Insufficient asset balance: expected '' @ show_int amount
                                     @ '', got '' @ show_int balance)\<rparr>,
          headers = []\<rparr>
     \<and> stringToBigInt (show_int amount) = Some amount
     \<and> stringToBigInt (show_int balance) = Some balance
     \<and> (\<forall>n. toBigInt w (JStr (show_int n)) = Inr n)"
proof -
  let ?req = "field body ''paymentRequirements''"
  from assms(1) have called: "BalanceOf api a s \<in> set (fst (verify_try w (Inr body) t0 t1))"
    by simp
  from verify_try_calls [OF called] obtain api' where
    dec: "BalanceOf api a s
        \<in> set (fst (verify_decode w api' ?req (field body ''paymentHeader'') t0 t1))"
    and run: "verify_try w (Inr body) t0 t1
        = after [UseApi (field ?req ''network'')]
            (verify_decode w api' ?req (field body ''paymentHeader'') t0 t1)"
    by auto
  from verify_decode_calls [OF dec] obtain q where
    mis: "BalanceOf api a s \<in> set (fst (verify_mismatch w api' ?req q t0 t1))"
    and run2: "snd (verify_decode w api' ?req (field body ''paymentHeader'') t0 t1)
        = snd (verify_mismatch w api' ?req q t0 t1)"
    by auto
  from verify_mismatch_calls [OF mis] have
    run3: "verify_mismatch w api' ?req q t0 t1 = verify_balance w api' ?req q t0 t1"
    by simp
  with mis have "BalanceOf api a s \<in> set (fst (verify_balance w api' ?req q t0 t1))"
    by simp
  from verify_balance_called [OF this assms(2) assms(3) assms(4)] run run2 run3
  have "snd (POST_verify w (Inr body) t0 t1)
       = \<lparr>status = 200,
          json_body = \<lparr>isValid = False,
             invalidReason = Some (''Insufficient asset balance: expected '' @ show_int amount
                                     @ '', got '' @ show_int balance)\<rparr>,
          headers = []\<rparr>"
    by (simp add: snd_POST_verify verify_reject_def json_def)
  then show ?thesis
    by (simp add: stringToBigInt_show_int parseBigInt_def)
qed

theorem C7_insufficient_balance_exact_witness:
  "BalanceOf () (JStr ''kGkPayer'') (JStr ''native'')
     \<in> set (fst (POST_verify underfunded_runtime (Inr sample_request) 100 142))
   \<and> toBigInt underfunded_runtime (JStr ''1000000000000'') = Inr 1000000000000
   \<and> balanceOf underfunded_runtime () (JStr ''kGkPayer'') (JStr ''native'') = Inr 500000000000
   \<and> snd (POST_verify underfunded_runtime (Inr sample_request) 100 142)
       = \<lparr>status = 200,
          json_body = \<lparr>isValid = False,
             invalidReason =
               Some ''Insufficient asset balance: expected 1000000000000, got 500000000000''\<rparr>,
          headers = []\<rparr>"
proof -
  have called: "BalanceOf () (JStr ''kGkPayer'') (JStr ''native'')
      \<in> set (fst (POST_verify underfunded_runtime (Inr sample_request) 100 142))"
    by (simp add: verify_defs sample_defs js_defs)
  have amount: "toBigInt underfunded_runtime
      (field (field sample_request ''paymentRequirements'') ''maxAmountRequired'')
      = Inr 1000000000000"
    by (simp add: sample_defs js_defs)
  have balance: "balanceOf underfunded_runtime () (JStr ''kGkPayer'') (JStr ''native'')
      = Inr 500000000000"
    by (simp add: sample_defs)
  have digits: "show_int 1000000000000 = ''1000000000000''"
    "show_int 500000000000 = ''500000000000''"
    by (simp_all add: js_defs)
  have required: "field (field sample_request ''paymentRequirements'') ''maxAmountRequired''
      = (JStr ''1000000000000'' :: int jsval)"
    by (simp add: sample_defs)
  from C7_insufficient_balance_exact [OF called amount balance] digits
  have "snd (POST_verify underfunded_runtime (Inr sample_request) 100 142)
       = \<lparr>status = 200,
          json_body = \<lparr>isValid = False,
             invalidReason =
               Some ''Insufficient asset balance: expected 1000000000000, got 500000000000''\<rparr>,
          headers = []\<rparr>"
    by simp
  with called amount balance required show ?thesis
    by simp
qed


section \<open>The mismatch gates\<close>

lemma settle_mismatch_not_decoding:
  assumes "c \<in> set (fst (settle_mismatch w api req p t0 t1))"
  shows "\<not> decoding c"
  using settle_mismatch_calls [OF assms] by simp

text \<open>
  The decoded text was parsed, to a value that is not null: the run is the three calls
  made so far, followed by the mismatch gates.
\<close>

lemma verify_reaches_mismatch:
  assumes "JsonParse jtext \<in> set (fst (verify_try w (Inr body) t0 t1))"
    and "jsonParse w jtext = Inr p" and "\<not> nullish p"
  shows "passes_gates w body \<and>
     (\<exists>api h. verify_try w (Inr body) t0 t1
        = after [UseApi (field (field body ''paymentRequirements'') ''network''),
                 Base64Decode h, JsonParse jtext]
            (verify_mismatch w api (field body ''paymentRequirements'') p t0 t1))"
proof -
  let ?req = "field body ''paymentRequirements''"
  from verify_try_calls [OF assms(1)] obtain api where
    gates: "passes_gates w body"
    and dec: "JsonParse jtext
        \<in> set (fst (verify_decode w api ?req (field body ''paymentHeader'') t0 t1))"
    and run: "verify_try w (Inr body) t0 t1
        = after [UseApi (field ?req ''network'')]
            (verify_decode w api ?req (field body ''paymentHeader'') t0 t1)"
    by auto
  from verify_decode_calls [OF dec] verify_mismatch_not_decoding [of "JsonParse jtext" w api ?req]
  obtain h where h: "field body ''paymentHeader'' = JStr h" "base64Decode w h = Inr jtext"
    by auto
  from verify_decode_parsed [OF h(2) assms(2) assms(3)] h(1) run
  have "verify_try w (Inr body) t0 t1
      = after [UseApi (field ?req ''network''), Base64Decode h, JsonParse jtext]
          (verify_mismatch w api ?req p t0 t1)"
    by (simp add: after_def)
  with gates show ?thesis
    by blast
qed

lemma settle_reaches_mismatch:
  assumes "JsonParse jtext \<in> set (fst (settle_try w (Inr body) t0 t1))"
    and "jsonParse w jtext = Inr p" and "\<not> nullish p"
  shows "passes_gates w body \<and>
     (\<exists>api h. settle_try w (Inr body) t0 t1
        = after [UseApi (field (field body ''paymentRequirements'') ''network''),
                 Base64Decode h, JsonParse jtext]
            (settle_mismatch w api (field body ''paymentRequirements'') p t0 t1))"
proof -
  let ?req = "field body ''paymentRequirements''"
  from settle_try_calls [OF assms(1)] obtain api where
    gates: "passes_gates w body"
    and dec: "JsonParse jtext
        \<in> set (fst (settle_decode w api ?req (field body ''paymentHeader'') t0 t1))"
    and run: "settle_try w (Inr body) t0 t1
        = after [UseApi (field ?req ''network'')]
            (settle_decode w api ?req (field body ''paymentHeader'') t0 t1)"
    by auto
  from settle_decode_calls [OF dec] settle_mismatch_not_decoding [of "JsonParse jtext" w api ?req]
  obtain h where h: "field body ''paymentHeader'' = JStr h" "base64Decode w h = Inr jtext"
    by auto
  from settle_decode_parsed [OF h(2) assms(2) assms(3)] h(1) run
  have "settle_try w (Inr body) t0 t1
      = after [UseApi (field ?req ''network''), Base64Decode h, JsonParse jtext]
          (settle_mismatch w api ?req p t0 t1)"
    by (simp add: after_def)
  with gates show ?thesis
    by blast
qed

lemma verify_mismatch_rejects:
  assumes "field req ''scheme'' = JStr sch" and "field req ''network'' = JStr net"
  shows "(\<not> strict_eq (field p ''scheme'') (field req ''scheme'') \<and> printable (field p ''scheme'')
      \<longrightarrow> verify_mismatch w api req p t0 t1
           = ([], Return (verify_reject
                (mismatch_text w ''Scheme'' (field req ''scheme'') (field p ''scheme'')))))
   \<and> (strict_eq (field p ''scheme'') (field req ''scheme'')
       \<and> \<not> strict_eq (field p ''network'') (field req ''network'')
       \<and> printable (field p ''network'')
      \<longrightarrow> verify_mismatch w api req p t0 t1
           = ([], Return (verify_reject
                (mismatch_text w ''Network'' (field req ''network'') (field p ''network'')))))
   \<and> (strict_eq (field p ''scheme'') (field req ''scheme'')
       \<and> strict_eq (field p ''network'') (field req ''network'')
       \<and> \<not> strict_eq (field p ''asset'') (field req ''asset'')
       \<and> printable (field p ''asset'') \<and> printable (field req ''asset'')
      \<longrightarrow> verify_mismatch w api req p t0 t1
           = ([], Return (verify_reject
                (mismatch_text w ''Asset'' (field req ''asset'') (field p ''asset'')))))"
  using assms
  by (simp add: verify_mismatch_def verify_reject_tpl_def to_string_def mismatch_text_def)

lemma settle_mismatch_rejects:
  assumes "field req ''scheme'' = JStr sch" and "field req ''network'' = JStr net"
  shows "(\<not> strict_eq (field p ''scheme'') (field req ''scheme'') \<and> printable (field p ''scheme'')
      \<longrightarrow> settle_mismatch w api req p t0 t1
           = ([], Return (settle_reject
                (Some (mismatch_text w ''Scheme'' (field req ''scheme'') (field p ''scheme''))))))
   \<and> (strict_eq (field p ''scheme'') (field req ''scheme'')
       \<and> \<not> strict_eq (field p ''network'') (field req ''network'')
       \<and> printable (field p ''network'')
      \<longrightarrow> settle_mismatch w api req p t0 t1
           = ([], Return (settle_reject
                (Some (mismatch_text w ''Network'' (field req ''network'') (field p ''network''))))))"
  using assms
  by (simp add: settle_mismatch_def settle_reject_tpl_def to_string_def mismatch_text_def)

text \<open>
  C5. Take a request that gets as far as parsing its decoded header, to a payload \<open>p\<close>
  that is not null (so it passed the version, presence, scheme and network gates and a
  handle was obtained), with \<open>req\<close> its \<^verbatim>\<open>paymentRequirements\<close>. If the scheme of \<open>p\<close>
  differs from that of \<open>req\<close>, or else the network, or else (verify route only) the
  asset, the response is HTTP 200 with \<^verbatim>\<open>isValid\<close>/\<^verbatim>\<open>success\<close> false and the message
  \<^verbatim>\<open>"Scheme mismatch: expected {X}, got {Y}"\<close>, \<^verbatim>\<open>"Network mismatch: ..."\<close> or
  \<^verbatim>\<open>"Asset mismatch: ..."\<close> of the first field that differs, and the trace of calls holds
  no delegated call. The values put into the message must be convertible to strings.
\<close>

theorem C5_mismatch_rejected_without_delegation:
  assumes "jsonParse w jtext = Inr p" and "\<not> nullish p"
    and "req = field body ''paymentRequirements''"
  shows
    "(JsonParse jtext \<in> set (fst (POST_verify w (Inr body) t0 t1)) \<longrightarrow>
        (\<not> strict_eq (field p ''scheme'') (field req ''scheme'') \<and> printable (field p ''scheme'')
           \<longrightarrow> snd (POST_verify w (Inr body) t0 t1)
                = json \<lparr>isValid = False, invalidReason = Some
                     (mismatch_text w ''Scheme'' (field req ''scheme'') (field p ''scheme''))\<rparr>
              \<and> \<not> list_ex delegated (fst (POST_verify w (Inr body) t0 t1)))
      \<and> (strict_eq (field p ''scheme'') (field req ''scheme'')
          \<and> \<not> strict_eq (field p ''network'') (field req ''network'')
          \<and> printable (field p ''network'')
           \<longrightarrow> snd (POST_verify w (Inr body) t0 t1)
                = json \<lparr>isValid = False, invalidReason = Some
                     (mismatch_text w ''Network'' (field req ''network'') (field p ''network''))\<rparr>
              \<and> \<not> list_ex delegated (fst (POST_verify w (Inr body) t0 t1)))
      \<and> (strict_eq (field p ''scheme'') (field req ''scheme'')
          \<and> strict_eq (field p ''network'') (field req ''network'')
          \<and> \<not> strict_eq (field p ''asset'') (field req ''asset'')
          \<and> printable (field p ''asset'') \<and> printable (field req ''asset'')
           \<longrightarrow> snd (POST_verify w (Inr body) t0 t1)
                = json \<lparr>isValid = False, invalidReason = Some
                     (mismatch_text w ''Asset'' (field req ''asset'') (field p ''asset''))\<rparr>
              \<and> \<not> list_ex delegated (fst (POST_verify w (Inr body) t0 t1))))
     \<and> (JsonParse jtext \<in> set (fst (POST_settle w (Inr body) t0 t1)) \<longrightarrow>
        (\<not> strict_eq (field p ''scheme'') (field req ''scheme'') \<and> printable (field p ''scheme'')
           \<longrightarrow> snd (POST_settle w (Inr body) t0 t1)
                = json \<lparr>success = False, error = Some
                     (mismatch_text w ''Scheme'' (field req ''scheme'') (field p ''scheme'')),
                     txHash = None, networkId = JNull\<rparr>
              \<and> \<not> list_ex delegated (fst (POST_settle w (Inr body) t0 t1)))
      \<and> (strict_eq (field p ''scheme'') (field req ''scheme'')
          \<and> \<not> strict_eq (field p ''network'') (field req ''network'')
          \<and> printable (field p ''network'')
           \<longrightarrow> snd (POST_settle w (Inr body) t0 t1)
                = json \<lparr>success = False, error = Some
                     (mismatch_text w ''Network'' (field req ''network'') (field p ''network'')),
                     txHash = None, networkId = JNull\<rparr>
              \<and> \<not> list_ex delegated (fst (POST_settle w (Inr body) t0 t1))))"
proof (rule conjI; rule impI)
  assume "JsonParse jtext \<in> set (fst (POST_verify w (Inr body) t0 t1))"
  then have "JsonParse jtext \<in> set (fst (verify_try w (Inr body) t0 t1))"
    by simp
  from verify_reaches_mismatch [OF this assms(1) assms(2)] assms(3) obtain api h where
    gates: "passes_gates w body"
    and run: "verify_try w (Inr body) t0 t1
        = after [UseApi (field req ''network''), Base64Decode h, JsonParse jtext]
            (verify_mismatch w api req p t0 t1)"
    by auto
  from passes_gates_strings [OF gates] assms(3) obtain net where
    strings: "field req ''scheme'' = JStr (X402_SCHEME w)" "field req ''network'' = JStr net"
    by auto
  from verify_mismatch_rejects [OF strings, of p w api t0 t1] run
  show "(\<not> strict_eq (field p ''scheme'') (field req ''scheme'') \<and> printable (field p ''scheme'')
           \<longrightarrow> snd (POST_verify w (Inr body) t0 t1)
                = json \<lparr>isValid = False, invalidReason = Some
                     (mismatch_text w ''Scheme'' (field req ''scheme'') (field p ''scheme''))\<rparr>
              \<and> \<not> list_ex delegated (fst (POST_verify w (Inr body) t0 t1)))
      \<and> (strict_eq (field p ''scheme'') (field req ''scheme'')
          \<and> \<not> strict_eq (field p ''network'') (field req ''network'')
          \<and> printable (field p ''network'')
           \<longrightarrow> snd (POST_verify w (Inr body) t0 t1)
                = json \<lparr>isValid = False, invalidReason = Some
                     (mismatch_text w ''Network'' (field req ''network'') (field p ''network''))\<rparr>
              \<and> \<not> list_ex delegated (fst (POST_verify w (Inr body) t0 t1)))
      \<and> (strict_eq (field p ''scheme'') (field req ''scheme'')
          \<and> strict_eq (field p ''network'') (field req ''network'')
          \<and> \<not> strict_eq (field p ''asset'') (field req ''asset'')
          \<and> printable (field p ''asset'') \<and> printable (field req ''asset'')
           \<longrightarrow> snd (POST_verify w (Inr body) t0 t1)
                = json \<lparr>isValid = False, invalidReason = Some
                     (mismatch_text w ''Asset'' (field req ''asset'') (field p ''asset''))\<rparr>
              \<and> \<not> list_ex delegated (fst (POST_verify w (Inr body) t0 t1)))"
    by (simp add: snd_POST_verify verify_reject_def)
next
  assume "JsonParse jtext \<in> set (fst (POST_settle w (Inr body) t0 t1))"
  then have "JsonParse jtext \<in> set (fst (settle_try w (Inr body) t0 t1))"
    by simp
  from settle_reaches_mismatch [OF this assms(1) assms(2)] assms(3) obtain api h where
    gates: "passes_gates w body"
    and run: "settle_try w (Inr body) t0 t1
        = after [UseApi (field req ''network''), Base64Decode h, JsonParse jtext]
            (settle_mismatch w api req p t0 t1)"
    by auto
  from passes_gates_strings [OF gates] assms(3) obtain net where
    strings: "field req ''scheme'' = JStr (X402_SCHEME w)" "field req ''network'' = JStr net"
    by auto
  from settle_mismatch_rejects [OF strings, of p w api t0 t1] run
  show "(\<not> strict_eq (field p ''scheme'') (field req ''scheme'') \<and> printable (field p ''scheme'')
           \<longrightarrow> snd (POST_settle w (Inr body) t0 t1)
                = json \<lparr>success = False, error = Some
                     (mismatch_text w ''Scheme'' (field req ''scheme'') (field p ''scheme'')),
                     txHash = None, networkId = JNull\<rparr>
              \<and> \<not> list_ex delegated (fst (POST_settle w (Inr body) t0 t1)))
      \<and> (strict_eq (field p ''scheme'') (field req ''scheme'')
          \<and> \<not> strict_eq (field p ''network'') (field req ''network'')
          \<and> printable (field p ''network'')
           \<longrightarrow> snd (POST_settle w (Inr body) t0 t1)
                = json \<lparr>success = False, error = Some
                     (mismatch_text w ''Network'' (field req ''network'') (field p ''network'')),
                     txHash = None, networkId = JNull\<rparr>
              \<and> \<not> list_ex delegated (fst (POST_settle w (Inr body) t0 t1)))"
    by (simp add: snd_POST_settle settle_reject_def)
qed


theorem C5_mismatch_rejected_without_delegation_witness:
  "JsonParse ''decoded header''
     \<in> set (fst (POST_verify (runtime_on (payload_of ''upto'' ''vara-testnet'' ''native''))
                   (Inr sample_request) 100 142))
   \<and> \<not> strict_eq (field (payload_of ''upto'' ''vara-testnet'' ''native'') ''scheme'')
         (field sample_requirements ''scheme'')
   \<and> snd (POST_verify (runtime_on (payload_of ''upto'' ''vara-testnet'' ''native''))
            (Inr sample_request) 100 142)
       = json \<lparr>isValid = False,
               invalidReason = Some ''Scheme mismatch: expected exact, got upto''\<rparr>
   \<and> \<not> list_ex delegated
         (fst (POST_verify (runtime_on (payload_of ''upto'' ''vara-testnet'' ''native''))
                 (Inr sample_request) 100 142))
   \<and> snd (POST_verify (runtime_on (payload_of ''exact'' ''vara-testnet'' ''0x64f9''))
            (Inr sample_request) 100 142)
       = json \<lparr>isValid = False,
               invalidReason = Some ''Asset mismatch: expected native, got 0x64f9''\<rparr>
   \<and> JsonParse ''decoded header''
     \<in> set (fst (POST_settle (runtime_on (payload_of ''exact'' ''vara'' ''native''))
                   (Inr sample_request) 100 142))
   \<and> snd (POST_settle (runtime_on (payload_of ''exact'' ''vara'' ''native''))
            (Inr sample_request) 100 142)
       = json \<lparr>success = False,
               error = Some ''Network mismatch: expected vara-testnet, got vara'',
               txHash = None, networkId = JNull\<rparr>
   \<and> \<not> list_ex delegated
         (fst (POST_settle (runtime_on (payload_of ''exact'' ''vara'' ''native''))
                 (Inr sample_request) 100 142))"
proof -
  have parsed: "jsonParse (runtime_on q) ''decoded header'' = Inr q" for q
    by (simp add: runtime_on_def sample_defs)
  have object: "\<not> nullish (payload_of sch net ast)" for sch net ast
    by (simp add: sample_defs)
  have req: "sample_requirements = field sample_request ''paymentRequirements''"
    by (simp add: sample_defs)
  have reached:
    "JsonParse ''decoded header''
       \<in> set (fst (POST_verify (runtime_on (payload_of ''upto'' ''vara-testnet'' ''native''))
                     (Inr sample_request) 100 142))"
    "JsonParse ''decoded header''
       \<in> set (fst (POST_verify (runtime_on (payload_of ''exact'' ''vara-testnet'' ''0x64f9''))
                     (Inr sample_request) 100 142))"
    "JsonParse ''decoded header''
       \<in> set (fst (POST_settle (runtime_on (payload_of ''exact'' ''vara'' ''native''))
                     (Inr sample_request) 100 142))"
    by (simp_all add: verify_defs settle_defs sample_defs js_defs)
  have fields:
    "field (payload_of sch net ast) ''scheme'' = JStr sch"
    "field (payload_of sch net ast) ''network'' = JStr net"
    "field (payload_of sch net ast) ''asset'' = JStr ast"
    "field sample_requirements ''scheme'' = (JStr ''exact'' :: int jsval)"
    "field sample_requirements ''network'' = (JStr ''vara-testnet'' :: int jsval)"
    "field sample_requirements ''asset'' = (JStr ''native'' :: int jsval)" for sch net ast
    by (simp_all add: sample_defs)
  from reached fields
    C5_mismatch_rejected_without_delegation [OF parsed object req,
      of "''upto''" "''vara-testnet''" "''native''" 100 142]
    C5_mismatch_rejected_without_delegation [OF parsed object req,
      of "''exact''" "''vara-testnet''" "''0x64f9''" 100 142]
    C5_mismatch_rejected_without_delegation [OF parsed object req,
      of "''exact''" "''vara''" "''native''" 100 142]
  show ?thesis
    by (simp add: mismatch_text_def)
qed

section \<open>The empty header\<close>

lemma field_defined: "field v k = JStr s \<Longrightarrow> \<not> nullish v"
  by (cases v) auto

text \<open>
  C9, as amended. For a request whose \<^verbatim>\<open>paymentHeader\<close> is the empty string, neither
  route makes any call: no handle is asked for and the decoder is never reached. When
  moreover the version is the supported one and \<^verbatim>\<open>paymentRequirements\<close> is neither null
  nor missing, both routes answer HTTP 400 with
  \<^verbatim>\<open>"Missing paymentHeader or paymentRequirements"\<close>.
\<close>

theorem C9_empty_header_is_missing:
  assumes "field body ''paymentHeader'' = JStr []"
  shows "fst (POST_verify w (Inr body) t0 t1) = []
     \<and> fst (POST_settle w (Inr body) t0 t1) = []
     \<and> (strict_eq (field body ''x402Version'') (JNum (X402_VERSION w))
         \<and> \<not> nullish (field body ''paymentRequirements'')
        \<longrightarrow> snd (POST_verify w (Inr body) t0 t1)
             = \<lparr>status = 400,
                json_body = \<lparr>isValid = False,
                   invalidReason = Some ''Missing paymentHeader or paymentRequirements''\<rparr>,
                headers = []\<rparr>
           \<and> snd (POST_settle w (Inr body) t0 t1)
             = \<lparr>status = 400,
                json_body = \<lparr>success = False,
                   error = Some ''Missing paymentHeader or paymentRequirements'',
                   txHash = None, networkId = JNull\<rparr>,
                headers = []\<rparr>)"
proof -
  from assms have falsy: "\<not> truthy w (field body ''paymentHeader'')"
    by simp
  have no_call: "\<not> passes_gates w body"
    using falsy by (simp add: passes_gates_def)
  have verify_quiet: "fst (verify_try w (Inr body) t0 t1) = []"
  proof (rule ccontr)
    assume "fst (verify_try w (Inr body) t0 t1) \<noteq> []"
    then have "hd (fst (verify_try w (Inr body) t0 t1)) \<in> set (fst (verify_try w (Inr body) t0 t1))"
      by simp
    from verify_try_calls [OF this] no_call show False
      by auto
  qed
  have settle_quiet: "fst (settle_try w (Inr body) t0 t1) = []"
  proof (rule ccontr)
    assume "fst (settle_try w (Inr body) t0 t1) \<noteq> []"
    then have "hd (fst (settle_try w (Inr body) t0 t1)) \<in> set (fst (settle_try w (Inr body) t0 t1))"
      by simp
    from settle_try_calls [OF this] no_call show False
      by auto
  qed
  from assms have object: "\<not> nullish body"
    by (rule field_defined)
  from object falsy have
    "strict_eq (field body ''x402Version'') (JNum (X402_VERSION w))
       \<and> \<not> nullish (field body ''paymentRequirements'')
     \<longrightarrow> snd (POST_verify w (Inr body) t0 t1)
           = \<lparr>status = 400,
              json_body = \<lparr>isValid = False,
                 invalidReason = Some ''Missing paymentHeader or paymentRequirements''\<rparr>,
              headers = []\<rparr>
         \<and> snd (POST_settle w (Inr body) t0 t1)
           = \<lparr>status = 400,
              json_body = \<lparr>success = False,
                 error = Some ''Missing paymentHeader or paymentRequirements'',
                 txHash = None, networkId = JNull\<rparr>,
              headers = []\<rparr>"
    by (simp add: POST_verify_def POST_settle_def verify_try_def settle_try_def js_or_def
        json_status_def)
  with verify_quiet settle_quiet show ?thesis
    by simp
qed

theorem C9_empty_header_is_missing_witness:
  "field (empty_header_request 1) ''paymentHeader'' = JStr []
   \<and> strict_eq (field (empty_header_request 1) ''x402Version'') (JNum (X402_VERSION funded_runtime))
   \<and> \<not> nullish (field (empty_header_request 1) ''paymentRequirements'')
   \<and> POST_verify funded_runtime (Inr (empty_header_request 1)) 100 142
       = ([], \<lparr>status = 400,
               json_body = \<lparr>isValid = False,
                  invalidReason = Some ''Missing paymentHeader or paymentRequirements''\<rparr>,
               headers = []\<rparr>)
   \<and> POST_settle funded_runtime (Inr (empty_header_request 1)) 100 142
       = ([], \<lparr>status = 400,
               json_body = \<lparr>success = False,
                  error = Some ''Missing paymentHeader or paymentRequirements'',
                  txHash = None, networkId = JNull\<rparr>,
               headers = []\<rparr>)"
proof -
  have header: "field (empty_header_request 1) ''paymentHeader'' = JStr []"
    by (simp add: sample_defs)
  have version: "strict_eq (field (empty_header_request 1) ''x402Version'')
      (JNum (X402_VERSION funded_runtime))"
    by (simp add: sample_defs)
  have requirements: "\<not> nullish (field (empty_header_request 1) ''paymentRequirements'')"
    by (simp add: sample_defs)
  from version requirements
    C9_empty_header_is_missing [OF header, of funded_runtime 100 142]
  have "POST_verify funded_runtime (Inr (empty_header_request 1)) 100 142
       = ([], \<lparr>status = 400,
               json_body = \<lparr>isValid = False,
                  invalidReason = Some ''Missing paymentHeader or paymentRequirements''\<rparr>,
               headers = []\<rparr>)
     \<and> POST_settle funded_runtime (Inr (empty_header_request 1)) 100 142
       = ([], \<lparr>status = 400,
               json_body = \<lparr>success = False,
                  error = Some ''Missing paymentHeader or paymentRequirements'',
                  txHash = None, networkId = JNull\<rparr>,
               headers = []\<rparr>)"
    by (simp add: prod_eq_iff)
  with header version requirements show ?thesis
    by simp
qed

text \<open>
  C9, as the claim states it, fails: a request with the empty string as header and
  version \<open>2\<close> (the supported one being \<open>1\<close>) is rejected by the version gate, which
  comes first, with HTTP 200 and the version message, in both routes.
\<close>

theorem C9_empty_header_wrong_version:
  "field (empty_header_request 2) ''paymentHeader'' = JStr []
   \<and> POST_verify funded_runtime (Inr (empty_header_request 2)) 100 142
       = ([], \<lparr>status = 200,
               json_body = \<lparr>isValid = False,
                  invalidReason = Some ''Unsupported x402 version: 2''\<rparr>,
               headers = []\<rparr>)
   \<and> POST_settle funded_runtime (Inr (empty_header_request 2)) 100 142
       = ([], \<lparr>status = 200,
               json_body = \<lparr>success = False, error = Some ''Unsupported x402 version: 2'',
                  txHash = None, networkId = JNull\<rparr>,
               headers = []\<rparr>)"
  by (simp add: verify_defs settle_defs sample_defs js_defs)


end
